theory Spec2Isabelle
  imports Main "HOL-Library.Word"
begin

unbundle bit_operations_syntax

section \<open>LE Secure Connections pairing: data model\<close>

text \<open>
  The embedding follows the Secure Connections part of the NimBLE Security Manager
  (the translation unit that starts with \<^verbatim>\<open>#if NIMBLE_OPT(SM_SC)\<close>). C structs are
  records, byte buffers are lists of 8-bit words, enumerations of the private headers
  are datatypes whose constructors carry the names of the C constants, and the
  \<^verbatim>\<open>BLE_HS_DBG_ASSERT\<close> lines are left out (they compile to nothing outside debug
  builds).
\<close>

type_synonym u8 = "8 word"
type_synonym u16 = "16 word"
type_synonym u32 = "32 word"
type_synonym u64 = "64 word"
type_synonym bytes = "u8 list"

text \<open>The passkey actions \<^verbatim>\<open>BLE_SM_PKACT_*\<close> and the pairing algorithms
  \<^verbatim>\<open>BLE_SM_PAIR_ALG_*\<close>. The \<^verbatim>\<open>default:\<close> branches of the switches over them
  are unreachable for values of these types and have no counterpart below.\<close>

datatype pkact =
  BLE_SM_PKACT_NONE | BLE_SM_PKACT_OOB | BLE_SM_PKACT_INPUT | BLE_SM_PKACT_DISP
  | BLE_SM_PKACT_NUMCMP

datatype pair_alg =
  BLE_SM_PAIR_ALG_JW | BLE_SM_PAIR_ALG_PASSKEY | BLE_SM_PAIR_ALG_OOB | BLE_SM_PAIR_ALG_NUMCMP

text \<open>The procedure states named in the file, and \<^verbatim>\<open>BLE_SM_PROC_STATE_NONE\<close>, the
  value that matches no procedure state.\<close>

datatype proc_state =
  BLE_SM_PROC_STATE_NONE | BLE_SM_PROC_STATE_PUBLIC_KEY | BLE_SM_PROC_STATE_CONFIRM
  | BLE_SM_PROC_STATE_RANDOM | BLE_SM_PROC_STATE_DHKEY_CHECK | BLE_SM_PROC_STATE_LTK_START
  | BLE_SM_PROC_STATE_ENC_START

text \<open>The bits of \<^verbatim>\<open>proc->flags\<close>: the bit mask is a set of flags, \<^verbatim>\<open>flags & F\<close>
  is membership and \<^verbatim>\<open>flags |= F\<close> is insertion.\<close>

datatype proc_flag =
  BLE_SM_PROC_F_INITIATOR | BLE_SM_PROC_F_IO_INJECTED | BLE_SM_PROC_F_ADVANCE_ON_IO
  | BLE_SM_PROC_F_AUTHENTICATED | BLE_SM_PROC_F_SC

text \<open>Security Manager error codes (\<^verbatim>\<open>res->sm_err\<close>, 0 when there is none) and host
  status codes (\<^verbatim>\<open>res->app_status\<close> and the return codes of the collaborators, 0 for
  success). \<^verbatim>\<open>BLE_HS_SM_US_ERR\<close> wraps a Security Manager code into the host's
  range; \<open>BLE_HS_EOTHER\<close> stands for every other nonzero code a collaborator returns.\<close>

datatype sm_err_code =
  BLE_SM_ERR_NONE | BLE_SM_ERR_CONFIRM_MISMATCH | BLE_SM_ERR_UNSPECIFIED | BLE_SM_ERR_DHKEY

datatype hs_rc =
  BLE_HS_OK | BLE_HS_ENOENT | BLE_HS_EUNKNOWN | BLE_HS_SM_US_ERR sm_err_code
  | BLE_HS_EOTHER nat

text \<open>The five I/O capabilities, the values 0 to 4 of \<^verbatim>\<open>io_cap\<close>, index the rows and
  columns of the 5x5 tables. Any other value would index outside the tables, which C
  leaves undefined; the type has the five values only, and \<open>io_cap_idx\<close> is the byte.\<close>

datatype io_cap_t =
  IO_CAP_DISP_ONLY | IO_CAP_DISP_YES_NO | IO_CAP_KEYBOARD_ONLY | IO_CAP_NO_IO
  | IO_CAP_KEYBOARD_DISP

fun io_cap_idx :: "io_cap_t \<Rightarrow> nat" where
  "io_cap_idx IO_CAP_DISP_ONLY = 0"
| "io_cap_idx IO_CAP_DISP_YES_NO = 1"
| "io_cap_idx IO_CAP_KEYBOARD_ONLY = 2"
| "io_cap_idx IO_CAP_NO_IO = 3"
| "io_cap_idx IO_CAP_KEYBOARD_DISP = 4"

text \<open>\<^verbatim>\<open>struct ble_sm_pair_cmd\<close>, the fields this file reads.\<close>

record pair_cmd =
  io_cap :: io_cap_t
  oob_data_flag :: u8
  authreq :: u8

text \<open>Modelled from the spec: the mask \<^verbatim>\<open>BLE_SM_PAIR_AUTHREQ_MITM\<close> is defined in a
  header outside the sources; the MITM requirement is one bit of the authentication
  requirements byte (bit 2 in the Security Manager protocol).\<close>

definition BLE_SM_PAIR_AUTHREQ_MITM :: u8 where
  "BLE_SM_PAIR_AUTHREQ_MITM = 0x04"

record public_key =
  pk_x :: bytes
  pk_y :: bytes

text \<open>\<^verbatim>\<open>struct ble_sm_keys\<close>, the fields this file writes.\<close>

record sm_keys =
  ltk_valid :: bool
  ediv_rand_valid :: bool
  ediv :: u16
  rand_val :: u64
  keys_ltk :: bytes

text \<open>\<^verbatim>\<open>struct ble_sm_proc\<close>, the fields this file uses.\<close>

record proc =
  conn_handle :: u16
  state :: proc_state
  flags :: "proc_flag set"
  pair_alg :: pair_alg
  pair_req :: pair_cmd
  pair_rsp :: pair_cmd
  tk :: bytes
  confirm_peer :: bytes
  randm :: bytes
  rands :: bytes
  ltk :: bytes
  our_keys :: sm_keys
  peer_keys :: sm_keys
  passkey_bits_exchanged :: u8
  ri :: u8
  pub_key_peer :: public_key
  mackey :: bytes
  dhkey :: bytes

text \<open>\<^verbatim>\<open>struct ble_sm_result\<close>; \<open>passkey_action_action\<close> and
  \<open>passkey_action_numcmp\<close> are the two members of \<^verbatim>\<open>res->passkey_action\<close>.\<close>

record sm_result =
  app_status :: hs_rc
  sm_err :: sm_err_code
  passkey_action_action :: pkact
  passkey_action_numcmp :: u32
  execute :: bool
  enc_cb :: bool

text \<open>The file-scope variables \<^verbatim>\<open>ble_sm_sc_pub_key\<close>, \<^verbatim>\<open>ble_sm_sc_priv_key\<close> and
  \<^verbatim>\<open>ble_sm_sc_keys_generated\<close>.\<close>

record sc_keys =
  ble_sm_sc_pub_key :: bytes
  ble_sm_sc_priv_key :: bytes
  ble_sm_sc_keys_generated :: bool

subsection \<open>Collaborators\<close>

text \<open>
  The crypto engine, the random source, the transport, the address provider and the two
  helpers of the generic Security Manager (\<^verbatim>\<open>ble_sm_pkact_state\<close>,
  \<^verbatim>\<open>ble_sm_proc_can_advance\<close>) are defined outside the sources. They are the fields of
  an environment record. A collaborator with an effect (random numbers, transmission)
  takes and returns the state \<open>'w\<close> of the outside world. A collaborator that fills a
  buffer returns the buffer's content next to its return code, also when it fails;
  \<^verbatim>\<open>bls_hs_priv_copy_local_identity_addr\<close> gives the own address and its type.
\<close>

record 'w env =
  ble_sm_gen_pub_priv :: "'w \<Rightarrow> hs_rc \<times> bytes \<times> bytes \<times> 'w"
  ble_hci_util_rand :: "nat \<Rightarrow> 'w \<Rightarrow> hs_rc \<times> bytes \<times> 'w"
  ble_sm_gen_pair_rand :: "'w \<Rightarrow> hs_rc \<times> bytes \<times> 'w"
  ble_sm_alg_f4 :: "bytes \<Rightarrow> bytes \<Rightarrow> bytes \<Rightarrow> u8 \<Rightarrow> hs_rc \<times> bytes"
  ble_sm_alg_f5 ::
    "bytes \<Rightarrow> bytes \<Rightarrow> bytes \<Rightarrow> u8 \<Rightarrow> bytes \<Rightarrow> u8 \<Rightarrow> bytes \<Rightarrow> hs_rc \<times> bytes \<times> bytes"
  ble_sm_alg_f6 ::
    "bytes \<Rightarrow> bytes \<Rightarrow> bytes \<Rightarrow> bytes \<Rightarrow> bytes \<Rightarrow> u8 \<Rightarrow> bytes \<Rightarrow> u8 \<Rightarrow> bytes
      \<Rightarrow> hs_rc \<times> bytes"
  ble_sm_alg_g2 :: "bytes \<Rightarrow> bytes \<Rightarrow> bytes \<Rightarrow> bytes \<Rightarrow> hs_rc \<times> u32"
  ble_sm_alg_gen_dhkey :: "bytes \<Rightarrow> bytes \<Rightarrow> bytes \<Rightarrow> hs_rc \<times> bytes"
  ble_sm_pair_confirm_tx :: "u16 \<Rightarrow> bytes \<Rightarrow> 'w \<Rightarrow> hs_rc \<times> 'w"
  ble_sm_pair_random_tx :: "u16 \<Rightarrow> bytes \<Rightarrow> 'w \<Rightarrow> hs_rc \<times> 'w"
  ble_sm_public_key_tx :: "u16 \<Rightarrow> public_key \<Rightarrow> 'w \<Rightarrow> hs_rc \<times> 'w"
  ble_sm_dhkey_check_tx :: "u16 \<Rightarrow> bytes \<Rightarrow> 'w \<Rightarrow> hs_rc \<times> 'w"
  ble_sm_addrs :: "proc \<Rightarrow> hs_rc \<times> u8 \<times> bytes \<times> u8 \<times> bytes"
  ble_sm_peer_addr :: "proc \<Rightarrow> hs_rc \<times> u8 \<times> bytes"
  bls_hs_priv_copy_local_identity_addr :: "bytes \<times> u8"
  ble_hs_misc_pullup_base :: "bytes \<Rightarrow> nat \<Rightarrow> hs_rc"
  ble_sm_dhkey_check_parse :: "bytes \<Rightarrow> hs_rc \<times> bytes"
  ble_sm_pkact_state :: "pkact \<Rightarrow> proc_state"
  ble_sm_proc_can_advance :: "proc \<Rightarrow> bool"

section \<open>Capability resolver\<close>

definition ble_sm_sc_init_pka :: "pkact list list" where
  "ble_sm_sc_init_pka =
   [[BLE_SM_PKACT_NONE, BLE_SM_PKACT_NONE, BLE_SM_PKACT_INPUT, BLE_SM_PKACT_NONE, BLE_SM_PKACT_INPUT],
    [BLE_SM_PKACT_NONE, BLE_SM_PKACT_NUMCMP, BLE_SM_PKACT_INPUT, BLE_SM_PKACT_NONE, BLE_SM_PKACT_INPUT],
    [BLE_SM_PKACT_DISP, BLE_SM_PKACT_DISP, BLE_SM_PKACT_INPUT, BLE_SM_PKACT_NONE, BLE_SM_PKACT_DISP],
    [BLE_SM_PKACT_NONE, BLE_SM_PKACT_NONE, BLE_SM_PKACT_NONE, BLE_SM_PKACT_NONE, BLE_SM_PKACT_NONE],
    [BLE_SM_PKACT_DISP, BLE_SM_PKACT_NUMCMP, BLE_SM_PKACT_INPUT, BLE_SM_PKACT_NONE, BLE_SM_PKACT_NUMCMP]]"

definition ble_sm_sc_resp_pka :: "pkact list list" where
  "ble_sm_sc_resp_pka =
   [[BLE_SM_PKACT_NONE, BLE_SM_PKACT_NONE, BLE_SM_PKACT_DISP, BLE_SM_PKACT_NONE, BLE_SM_PKACT_DISP],
    [BLE_SM_PKACT_NONE, BLE_SM_PKACT_NUMCMP, BLE_SM_PKACT_DISP, BLE_SM_PKACT_NONE, BLE_SM_PKACT_NUMCMP],
    [BLE_SM_PKACT_INPUT, BLE_SM_PKACT_INPUT, BLE_SM_PKACT_INPUT, BLE_SM_PKACT_NONE, BLE_SM_PKACT_INPUT],
    [BLE_SM_PKACT_NONE, BLE_SM_PKACT_NONE, BLE_SM_PKACT_NONE, BLE_SM_PKACT_NONE, BLE_SM_PKACT_NONE],
    [BLE_SM_PKACT_INPUT, BLE_SM_PKACT_NUMCMP, BLE_SM_PKACT_DISP, BLE_SM_PKACT_NONE, BLE_SM_PKACT_NUMCMP]]"

text \<open>The first half of \<^verbatim>\<open>ble_sm_sc_passkey_action\<close>: the choice of the action. Both
  tables are indexed by the responder's capability first and the initiator's second.\<close>

definition sc_select_action :: "proc \<Rightarrow> pkact" where
  "sc_select_action p =
    (if oob_data_flag (pair_req p) \<noteq> 0 \<or> oob_data_flag (pair_rsp p) \<noteq> 0 then
       BLE_SM_PKACT_OOB
     else if authreq (pair_req p) AND BLE_SM_PAIR_AUTHREQ_MITM = 0 \<and>
             authreq (pair_rsp p) AND BLE_SM_PAIR_AUTHREQ_MITM = 0 then
       BLE_SM_PKACT_NONE
     else if BLE_SM_PROC_F_INITIATOR \<in> flags p then
       ble_sm_sc_init_pka ! io_cap_idx (io_cap (pair_rsp p)) ! io_cap_idx (io_cap (pair_req p))
     else
       ble_sm_sc_resp_pka ! io_cap_idx (io_cap (pair_rsp p)) ! io_cap_idx (io_cap (pair_req p)))"

text \<open>The switch of \<^verbatim>\<open>ble_sm_sc_passkey_action\<close>: the algorithm and the
  authenticated flag that go with an action.\<close>

fun sc_apply_action :: "pkact \<Rightarrow> proc \<Rightarrow> proc" where
  "sc_apply_action BLE_SM_PKACT_NONE p = p\<lparr>pair_alg := BLE_SM_PAIR_ALG_JW\<rparr>"
| "sc_apply_action BLE_SM_PKACT_OOB p =
     p\<lparr>pair_alg := BLE_SM_PAIR_ALG_OOB,
       flags := insert BLE_SM_PROC_F_AUTHENTICATED (flags p)\<rparr>"
| "sc_apply_action BLE_SM_PKACT_INPUT p =
     p\<lparr>pair_alg := BLE_SM_PAIR_ALG_PASSKEY,
       flags := insert BLE_SM_PROC_F_AUTHENTICATED (flags p)\<rparr>"
| "sc_apply_action BLE_SM_PKACT_DISP p =
     p\<lparr>pair_alg := BLE_SM_PAIR_ALG_PASSKEY,
       flags := insert BLE_SM_PROC_F_AUTHENTICATED (flags p)\<rparr>"
| "sc_apply_action BLE_SM_PKACT_NUMCMP p =
     p\<lparr>pair_alg := BLE_SM_PAIR_ALG_NUMCMP,
       flags := insert BLE_SM_PROC_F_AUTHENTICATED (flags p)\<rparr>"

text \<open>\<^verbatim>\<open>ble_sm_sc_passkey_action\<close> returns the action and updates the procedure.\<close>

definition ble_sm_sc_passkey_action :: "proc \<Rightarrow> pkact \<times> proc" where
  "ble_sm_sc_passkey_action p = (let action = sc_select_action p in (action, sc_apply_action action p))"

section \<open>Key agreement manager\<close>

definition ble_sm_sc_ensure_keys_generated ::
  "'w env \<Rightarrow> sc_keys \<Rightarrow> 'w \<Rightarrow> hs_rc \<times> sc_keys \<times> 'w" where
  "ble_sm_sc_ensure_keys_generated e g w =
    (if \<not> ble_sm_sc_keys_generated g then
       (case ble_sm_gen_pub_priv e w of (rc, pub, priv, w') \<Rightarrow>
          let g' = g\<lparr>ble_sm_sc_pub_key := pub, ble_sm_sc_priv_key := priv\<rparr> in
          if rc \<noteq> BLE_HS_OK then (rc, g', w')
          else (BLE_HS_OK, g'\<lparr>ble_sm_sc_keys_generated := True\<rparr>, w'))
     else (BLE_HS_OK, g, w))"

definition ble_sm_sc_init :: "sc_keys \<Rightarrow> sc_keys" where
  "ble_sm_sc_init g = g\<lparr>ble_sm_sc_keys_generated := False\<rparr>"

section \<open>Pairing procedure\<close>

text \<open>Initiator does not send a confirm when the pairing algorithm is just works or
  numeric comparison.\<close>

definition ble_sm_sc_initiator_txes_confirm :: "proc \<Rightarrow> bool" where
  "ble_sm_sc_initiator_txes_confirm p =
    (pair_alg p \<noteq> BLE_SM_PAIR_ALG_JW \<and> pair_alg p \<noteq> BLE_SM_PAIR_ALG_NUMCMP)"

text \<open>Responder does not verify the initiator's random number when the pairing
  algorithm is just works or numeric comparison.\<close>

definition ble_sm_sc_responder_verifies_random :: "proc \<Rightarrow> bool" where
  "ble_sm_sc_responder_verifies_random p =
    (pair_alg p \<noteq> BLE_SM_PAIR_ALG_JW \<and> pair_alg p \<noteq> BLE_SM_PAIR_ALG_NUMCMP)"

text \<open>Modelled from the spec: \<^verbatim>\<open>ble_sm_our_pair_rand\<close> and
  \<^verbatim>\<open>ble_sm_their_pair_rand\<close> are defined outside the sources. They point at the local
  and at the peer's nonce: \<^verbatim>\<open>randm\<close> is the initiator's and \<^verbatim>\<open>rands\<close> the
  responder's (as in \<^verbatim>\<open>ble_sm_sc_gen_numcmp\<close>, where \<^verbatim>\<open>randm\<close> goes with the
  initiator's public key). \<open>set_our_pair_rand\<close> is a write through the first pointer.\<close>

definition ble_sm_our_pair_rand :: "proc \<Rightarrow> bytes" where
  "ble_sm_our_pair_rand p = (if BLE_SM_PROC_F_INITIATOR \<in> flags p then randm p else rands p)"

definition ble_sm_their_pair_rand :: "proc \<Rightarrow> bytes" where
  "ble_sm_their_pair_rand p = (if BLE_SM_PROC_F_INITIATOR \<in> flags p then rands p else randm p)"

definition set_our_pair_rand :: "bytes \<Rightarrow> proc \<Rightarrow> proc" where
  "set_our_pair_rand v p =
    (if BLE_SM_PROC_F_INITIATOR \<in> flags p then p\<lparr>randm := v\<rparr> else p\<lparr>rands := v\<rparr>)"

definition BLE_SM_SC_PASSKEY_BITS :: nat where
  "BLE_SM_SC_PASSKEY_BITS = 20"

text \<open>What every failing step writes into the result.\<close>

definition res_fail :: "hs_rc \<Rightarrow> sm_result \<Rightarrow> sm_result" where
  "res_fail rc res = res\<lparr>app_status := rc, enc_cb := True, sm_err := BLE_SM_ERR_UNSPECIFIED\<rparr>"

text \<open>\<^verbatim>\<open>ble_sm_sc_gen_ri\<close>. In the passkey branch \<^verbatim>\<open>proc->tk[byte]\<close> is read with
  \<open>!\<close>: beyond the buffer the C read is undefined and the model's is unspecified. The
  random source writes one byte into \<^verbatim>\<open>proc->ri\<close>.\<close>

definition ble_sm_sc_gen_ri :: "'w env \<Rightarrow> 'w \<Rightarrow> proc \<Rightarrow> hs_rc \<times> 'w \<times> proc" where
  "ble_sm_sc_gen_ri e w p =
    (case pair_alg p of
       BLE_SM_PAIR_ALG_JW \<Rightarrow> (BLE_HS_OK, w, p\<lparr>ri := 0\<rparr>)
     | BLE_SM_PAIR_ALG_NUMCMP \<Rightarrow> (BLE_HS_OK, w, p\<lparr>ri := 0\<rparr>)
     | BLE_SM_PAIR_ALG_PASSKEY \<Rightarrow>
         (let byte = unat (passkey_bits_exchanged p) div 8;
              bit = unat (passkey_bits_exchanged p) mod 8
          in (BLE_HS_OK, w,
              p\<lparr>ri := 0x80 OR (if (tk p ! byte) AND push_bit bit 1 \<noteq> 0 then 1 else 0),
                passkey_bits_exchanged := passkey_bits_exchanged p + 1\<rparr>))
     | BLE_SM_PAIR_ALG_OOB \<Rightarrow>
         (case ble_hci_util_rand e 1 w of (rc, out, w') \<Rightarrow>
            (rc, w', p\<lparr>ri := (case out of [] \<Rightarrow> ri p | b # _ \<Rightarrow> b)\<rparr>)))"

text \<open>Modelled from the spec: the passkey is the locally-held value that the buffer
  \<^verbatim>\<open>proc->tk\<close> stores least significant byte first (the code that stores it is outside
  the sources). \<open>spec_passkey\<close> is that value; it is what the Confirm step's ``passkey
  bit at index \<open>i\<close>'' refers to.\<close>

definition spec_passkey :: "bytes \<Rightarrow> nat" where
  "spec_passkey bs = horner_sum unat 256 bs"

definition ble_sm_sc_confirm_go ::
  "'w env \<Rightarrow> sc_keys \<Rightarrow> 'w \<Rightarrow> proc \<Rightarrow> sm_result \<Rightarrow> 'w \<times> proc \<times> sm_result" where
  "ble_sm_sc_confirm_go e g w p res =
    (case ble_sm_sc_gen_ri e w p of (rc, w1, p1) \<Rightarrow>
       if rc \<noteq> BLE_HS_OK then (w1, p1, res_fail rc res)
       else
         (case ble_sm_alg_f4 e (ble_sm_sc_pub_key g) (pk_x (pub_key_peer p1))
                 (ble_sm_our_pair_rand p1) (ri p1) of (rc, cmd_value) \<Rightarrow>
            if rc \<noteq> BLE_HS_OK then (w1, p1, res_fail rc res)
            else
              (case ble_sm_pair_confirm_tx e (conn_handle p1) cmd_value w1 of (rc, w2) \<Rightarrow>
                 if rc \<noteq> BLE_HS_OK then (w2, p1, res_fail rc res)
                 else if BLE_SM_PROC_F_INITIATOR \<notin> flags p1 then
                   (w2, p1\<lparr>state := BLE_SM_PROC_STATE_RANDOM\<rparr>, res)
                 else (w2, p1, res))))"

definition ble_sm_sc_gen_numcmp :: "'w env \<Rightarrow> sc_keys \<Rightarrow> proc \<Rightarrow> sm_result \<Rightarrow> sm_result" where
  "ble_sm_sc_gen_numcmp e g p res =
    (let pka = (if BLE_SM_PROC_F_INITIATOR \<in> flags p then ble_sm_sc_pub_key g
                else pk_x (pub_key_peer p));
         pkb = (if BLE_SM_PROC_F_INITIATOR \<in> flags p then pk_x (pub_key_peer p)
                else ble_sm_sc_pub_key g)
     in case ble_sm_alg_g2 e pka pkb (randm p) (rands p) of (rc, v) \<Rightarrow>
          let res1 = res\<lparr>app_status := rc, passkey_action_numcmp := v\<rparr> in
          if rc \<noteq> BLE_HS_OK then res1\<lparr>sm_err := BLE_SM_ERR_UNSPECIFIED, enc_cb := True\<rparr>
          else res1)"

text \<open>Advances the procedure to the next state after it has completed the random
  state.\<close>

definition ble_sm_sc_random_advance :: "'w env \<Rightarrow> 'w \<Rightarrow> proc \<Rightarrow> hs_rc \<times> 'w \<times> proc" where
  "ble_sm_sc_random_advance e w p =
    (if pair_alg p \<noteq> BLE_SM_PAIR_ALG_PASSKEY \<or>
        unat (passkey_bits_exchanged p) \<ge> BLE_SM_SC_PASSKEY_BITS then
       (BLE_HS_OK, w, p\<lparr>state := BLE_SM_PROC_STATE_DHKEY_CHECK\<rparr>)
     else
       (case ble_sm_gen_pair_rand e w of (rc, v, w') \<Rightarrow>
          (rc, w', set_our_pair_rand v (p\<lparr>state := BLE_SM_PROC_STATE_CONFIRM\<rparr>))))"

text \<open>The lines that \<^verbatim>\<open>ble_sm_sc_random_go\<close> and \<^verbatim>\<open>ble_sm_sc_random_rx\<close> share
  after the advance: the numeric comparison value is produced when the action's state
  is the procedure's and no I/O has been injected. The flag tells whether that branch
  was taken.\<close>

definition sc_numcmp_if_due ::
  "'w env \<Rightarrow> sc_keys \<Rightarrow> proc \<Rightarrow> sm_result \<Rightarrow> bool \<times> proc \<times> sm_result" where
  "sc_numcmp_if_due e g p res =
    (case ble_sm_sc_passkey_action p of (pkact, p1) \<Rightarrow>
       if ble_sm_pkact_state e pkact = state p1 \<and> BLE_SM_PROC_F_IO_INJECTED \<notin> flags p1 then
         (True, p1, ble_sm_sc_gen_numcmp e g p1 (res\<lparr>passkey_action_action := pkact\<rparr>))
       else (False, p1, res))"

definition ble_sm_sc_random_go ::
  "'w env \<Rightarrow> sc_keys \<Rightarrow> 'w \<Rightarrow> proc \<Rightarrow> sm_result \<Rightarrow> 'w \<times> proc \<times> sm_result" where
  "ble_sm_sc_random_go e g w p res =
    (case ble_sm_pair_random_tx e (conn_handle p) (take 16 (ble_sm_our_pair_rand p)) w of
       (rc, w1) \<Rightarrow>
       if rc \<noteq> BLE_HS_OK then (w1, p, res_fail rc res)
       else if BLE_SM_PROC_F_INITIATOR \<notin> flags p then
         (case ble_sm_sc_random_advance e w1 p of (rc, w2, p1) \<Rightarrow>
            if rc \<noteq> BLE_HS_OK then (w2, p1, res_fail rc res)
            else (case sc_numcmp_if_due e g p1 res of (_, p2, res1) \<Rightarrow> (w2, p2, res1)))
       else (w1, p, res))"

text \<open>The second half of \<^verbatim>\<open>ble_sm_sc_random_rx\<close>, from the comment
  ``Calculate the mac key and ltk'' on. The initiator's call of
  \<^verbatim>\<open>ble_sm_sc_random_advance\<close> drops the return code.\<close>

definition sc_random_rx_keys ::
  "'w env \<Rightarrow> sc_keys \<Rightarrow> 'w \<Rightarrow> proc \<Rightarrow> sm_result \<Rightarrow> 'w \<times> proc \<times> sm_result" where
  "sc_random_rx_keys e g w p res =
    (case ble_sm_addrs e p of (rc, iat, ia, rat, ra) \<Rightarrow>
       if rc \<noteq> BLE_HS_OK then (w, p, res_fail rc res)
       else
         (case ble_sm_alg_f5 e (dhkey p) (randm p) (rands p) iat ia rat ra of
            (rc, mk, lt) \<Rightarrow>
            let p1 = p\<lparr>mackey := mk, ltk := lt\<rparr> in
            if rc \<noteq> BLE_HS_OK then (w, p1, res_fail rc res)
            else
              let p2 = p1\<lparr>our_keys := (our_keys p1)\<lparr>keys_ltk := ltk p1, ltk_valid := True,
                              ediv := 0, rand_val := 0, ediv_rand_valid := True\<rparr>,
                          peer_keys := (peer_keys p1)\<lparr>keys_ltk := ltk p1, ltk_valid := True,
                              ediv := 0, rand_val := 0, ediv_rand_valid := True\<rparr>\<rparr>
              in if BLE_SM_PROC_F_INITIATOR \<in> flags p2 then
                   (case ble_sm_sc_random_advance e w p2 of (_, w1, p3) \<Rightarrow>
                      (case sc_numcmp_if_due e g p3 res of (due, p4, res1) \<Rightarrow>
                         (w1, p4, if due then res1 else res1\<lparr>execute := True\<rparr>)))
                 else (w, p2, res\<lparr>execute := True\<rparr>)))"

text \<open>A key record after the lines of \<^verbatim>\<open>ble_sm_sc_random_rx\<close> that store the LTK in
  it: \<open>sc_random_rx_keys\<close> makes \<open>our_keys\<close> and \<open>peer_keys\<close> such records.\<close>

definition with_ltk :: "bytes \<Rightarrow> sm_keys \<Rightarrow> sm_keys" where
  "with_ltk lt k =
    k\<lparr>keys_ltk := lt, ltk_valid := True, ediv := 0, rand_val := 0, ediv_rand_valid := True\<rparr>"

text \<open>\<^verbatim>\<open>ble_sm_sc_random_rx\<close>: \<^verbatim>\<open>memcmp\<close> compares the first 16 bytes.\<close>

definition ble_sm_sc_random_rx ::
  "'w env \<Rightarrow> sc_keys \<Rightarrow> 'w \<Rightarrow> proc \<Rightarrow> sm_result \<Rightarrow> 'w \<times> proc \<times> sm_result" where
  "ble_sm_sc_random_rx e g w p res =
    (if BLE_SM_PROC_F_INITIATOR \<in> flags p \<or> ble_sm_sc_responder_verifies_random p then
       (case ble_sm_alg_f4 e (pk_x (pub_key_peer p)) (ble_sm_sc_pub_key g)
               (ble_sm_their_pair_rand p) (ri p) of (rc, confirm_val) \<Rightarrow>
          if rc \<noteq> BLE_HS_OK then (w, p, res_fail rc res)
          else if take 16 (confirm_peer p) \<noteq> take 16 confirm_val then
            (w, p, res\<lparr>app_status := BLE_HS_SM_US_ERR BLE_SM_ERR_CONFIRM_MISMATCH,
                       sm_err := BLE_SM_ERR_UNSPECIFIED, enc_cb := True\<rparr>)
          else sc_random_rx_keys e g w p res)
     else sc_random_rx_keys e g w p res)"


section \<open>Procedure store and inbound messages\<close>

text \<open>Modelled from the spec: \<^verbatim>\<open>ble_sm_proc_find\<close> is defined outside the sources.
  The store is the list of the procedures in flight; the lookup returns the position of
  the first procedure of the connection that is in the expected state, and
  \<^verbatim>\<open>BLE_SM_PROC_STATE_NONE\<close> as expected state matches every state.\<close>

fun ble_sm_proc_find :: "proc list \<Rightarrow> u16 \<Rightarrow> proc_state \<Rightarrow> nat option" where
  "ble_sm_proc_find [] c s = None"
| "ble_sm_proc_find (p # ps) c s =
     (if conn_handle p = c \<and> (s = BLE_SM_PROC_STATE_NONE \<or> state p = s) then Some 0
      else map_option Suc (ble_sm_proc_find ps c s))"

text \<open>Modelled from the spec: the sizes \<^verbatim>\<open>BLE_SM_PUBLIC_KEY_SZ\<close> and
  \<^verbatim>\<open>BLE_SM_DHKEY_CHECK_SZ\<close> and the parser \<^verbatim>\<open>ble_sm_public_key_parse\<close> are defined
  outside the sources. A public key message is a 64-byte payload, 32 bytes of X and then
  32 bytes of Y; a DHKey check is a 16-byte payload.\<close>

definition BLE_SM_PUBLIC_KEY_SZ :: nat where
  "BLE_SM_PUBLIC_KEY_SZ = 64"

definition BLE_SM_DHKEY_CHECK_SZ :: nat where
  "BLE_SM_DHKEY_CHECK_SZ = 16"

definition ble_sm_public_key_parse :: "bytes \<Rightarrow> public_key" where
  "ble_sm_public_key_parse om = \<lparr>pk_x = take 32 om, pk_y = take 32 (drop 32 om)\<rparr>"

definition ble_sm_sc_public_key_rx ::
  "'w env \<Rightarrow> sc_keys \<Rightarrow> 'w \<Rightarrow> proc list \<Rightarrow> u16 \<Rightarrow> bytes \<Rightarrow> sm_result
    \<Rightarrow> sc_keys \<times> 'w \<times> proc list \<times> sm_result" where
  "ble_sm_sc_public_key_rx e g w procs conn om res =
    (let rc0 = ble_hs_misc_pullup_base e om BLE_SM_PUBLIC_KEY_SZ;
         res0 = res\<lparr>app_status := rc0\<rparr>
     in if rc0 \<noteq> BLE_HS_OK then (g, w, procs, res0\<lparr>enc_cb := True\<rparr>)
        else
          (case ble_sm_sc_ensure_keys_generated e g w of (rc, g1, w1) \<Rightarrow>
             let res1 = res0\<lparr>app_status := rc\<rparr> in
             if rc \<noteq> BLE_HS_OK then
               (g1, w1, procs, res1\<lparr>enc_cb := True, sm_err := BLE_SM_ERR_UNSPECIFIED\<rparr>)
             else
               let cmd = ble_sm_public_key_parse om in
               (case ble_sm_proc_find procs conn BLE_SM_PROC_STATE_PUBLIC_KEY of
                  None \<Rightarrow>
                    (g1, w1, procs,
                     res1\<lparr>app_status := BLE_HS_ENOENT, sm_err := BLE_SM_ERR_UNSPECIFIED\<rparr>)
                | Some i \<Rightarrow>
                    (case ble_sm_alg_gen_dhkey e (pk_x cmd) (pk_y cmd) (ble_sm_sc_priv_key g1) of
                       (rc, dh) \<Rightarrow>
                       let p1 = (procs ! i)\<lparr>pub_key_peer := cmd, dhkey := dh\<rparr> in
                       if rc \<noteq> BLE_HS_OK then
                         (g1, w1, procs[i := p1],
                          res1\<lparr>app_status := BLE_HS_SM_US_ERR BLE_SM_ERR_DHKEY,
                               sm_err := BLE_SM_ERR_DHKEY, enc_cb := True\<rparr>)
                       else if BLE_SM_PROC_F_INITIATOR \<in> flags p1 then
                         (let p2 = p1\<lparr>state := BLE_SM_PROC_STATE_CONFIRM\<rparr> in
                          (g1, w1, procs[i := p2],
                           if ble_sm_proc_can_advance e p2 \<and> ble_sm_sc_initiator_txes_confirm p2
                           then res1\<lparr>execute := True\<rparr> else res1))
                       else (g1, w1, procs[i := p1], res1\<lparr>execute := True\<rparr>)))))"

definition ble_sm_sc_dhkey_check_iocap :: "pair_cmd \<Rightarrow> bytes" where
  "ble_sm_sc_dhkey_check_iocap pair_cmd =
    [of_nat (io_cap_idx (io_cap pair_cmd)), oob_data_flag pair_cmd, authreq pair_cmd]"

definition ble_sm_sc_dhkey_check_go ::
  "'w env \<Rightarrow> 'w \<Rightarrow> proc \<Rightarrow> sm_result \<Rightarrow> 'w \<times> proc \<times> sm_result" where
  "ble_sm_sc_dhkey_check_go e w p res =
    (let iocap = (if BLE_SM_PROC_F_INITIATOR \<in> flags p
                  then ble_sm_sc_dhkey_check_iocap (pair_req p)
                  else ble_sm_sc_dhkey_check_iocap (pair_rsp p))
     in case bls_hs_priv_copy_local_identity_addr e of (our_addr, our_addr_type) \<Rightarrow>
        (case ble_sm_peer_addr e p of (rc, peer_addr_type, peer_addr) \<Rightarrow>
           if rc \<noteq> BLE_HS_OK then (w, p, res_fail rc res)
           else
             (case ble_sm_alg_f6 e (mackey p) (ble_sm_our_pair_rand p)
                     (ble_sm_their_pair_rand p) (tk p) iocap our_addr_type our_addr
                     peer_addr_type peer_addr of (rc, cmd_value) \<Rightarrow>
                if rc \<noteq> BLE_HS_OK then (w, p, res_fail rc res)
                else
                  (case ble_sm_dhkey_check_tx e (conn_handle p) cmd_value w of (rc, w1) \<Rightarrow>
                     if rc \<noteq> BLE_HS_OK then (w1, p, res_fail rc res)
                     else if BLE_SM_PROC_F_INITIATOR \<notin> flags p then
                       (w1, p\<lparr>state := BLE_SM_PROC_STATE_LTK_START\<rparr>, res)
                     else (w1, p, res)))))"

text \<open>\<^verbatim>\<open>ble_sm_dhkey_check_process\<close>; \<open>cmd_value\<close> is \<^verbatim>\<open>cmd->value\<close>.\<close>

definition ble_sm_dhkey_check_process ::
  "'w env \<Rightarrow> proc \<Rightarrow> bytes \<Rightarrow> sm_result \<Rightarrow> proc \<times> sm_result" where
  "ble_sm_dhkey_check_process e p cmd_value res =
    (let iocap = (if BLE_SM_PROC_F_INITIATOR \<in> flags p
                  then ble_sm_sc_dhkey_check_iocap (pair_rsp p)
                  else ble_sm_sc_dhkey_check_iocap (pair_req p))
     in case bls_hs_priv_copy_local_identity_addr e of (our_addr, our_addr_type) \<Rightarrow>
        (case ble_sm_peer_addr e p of (rc, peer_addr_type, peer_addr) \<Rightarrow>
           let res1 = res\<lparr>app_status := rc\<rparr> in
           if rc \<noteq> BLE_HS_OK then
             (p, res1\<lparr>sm_err := BLE_SM_ERR_UNSPECIFIED, enc_cb := True\<rparr>)
           else
             (case ble_sm_alg_f6 e (mackey p) (ble_sm_their_pair_rand p)
                     (ble_sm_our_pair_rand p) (tk p) iocap peer_addr_type peer_addr
                     our_addr_type our_addr of (rc, exp_value) \<Rightarrow>
                let res2 = res1\<lparr>app_status := rc\<rparr> in
                if rc \<noteq> BLE_HS_OK then
                  (p, res2\<lparr>sm_err := BLE_SM_ERR_UNSPECIFIED, enc_cb := True\<rparr>)
                else if take 16 cmd_value \<noteq> take 16 exp_value then
                  (p, res2\<lparr>sm_err := BLE_SM_ERR_DHKEY,
                           app_status := BLE_HS_SM_US_ERR BLE_SM_ERR_DHKEY, enc_cb := True\<rparr>)
                else
                  (case ble_sm_sc_passkey_action p of (pkact, p1) \<Rightarrow>
                     let p2 = (if ble_sm_pkact_state e pkact = state p1
                               then p1\<lparr>flags := insert BLE_SM_PROC_F_ADVANCE_ON_IO (flags p1)\<rparr>
                               else p1)
                     in if ble_sm_proc_can_advance e p2 then
                          (if BLE_SM_PROC_F_INITIATOR \<in> flags p2
                           then p2\<lparr>state := BLE_SM_PROC_STATE_ENC_START\<rparr> else p2,
                           res2\<lparr>execute := True\<rparr>)
                        else (p2, res2)))))"

definition ble_sm_sc_dhkey_check_rx ::
  "'w env \<Rightarrow> proc list \<Rightarrow> u16 \<Rightarrow> bytes \<Rightarrow> sm_result \<Rightarrow> proc list \<times> sm_result" where
  "ble_sm_sc_dhkey_check_rx e procs conn om res =
    (let rc0 = ble_hs_misc_pullup_base e om BLE_SM_DHKEY_CHECK_SZ;
         res0 = res\<lparr>app_status := rc0\<rparr>
     in if rc0 \<noteq> BLE_HS_OK then
          (procs, res0\<lparr>enc_cb := True, sm_err := BLE_SM_ERR_UNSPECIFIED\<rparr>)
        else
          (case ble_sm_dhkey_check_parse e om of (rc, cmd_value) \<Rightarrow>
             let res1 = res0\<lparr>app_status := rc\<rparr> in
             if rc \<noteq> BLE_HS_OK then
               (procs, res1\<lparr>enc_cb := True, sm_err := BLE_SM_ERR_UNSPECIFIED\<rparr>)
             else
               (case ble_sm_proc_find procs conn BLE_SM_PROC_STATE_DHKEY_CHECK of
                  None \<Rightarrow> (procs, res1\<lparr>app_status := BLE_HS_ENOENT\<rparr>)
                | Some i \<Rightarrow>
                    (case ble_sm_dhkey_check_process e (procs ! i) cmd_value res1 of
                       (p', res2) \<Rightarrow> (procs[i := p'], res2)))))"

section \<open>The driving loop\<close>

text \<open>The result that a step starts from: every field is cleared.\<close>

definition res0 :: sm_result where
  "res0 = \<lparr>app_status = BLE_HS_OK, sm_err = BLE_SM_ERR_NONE,
           passkey_action_action = BLE_SM_PKACT_NONE, passkey_action_numcmp = 0,
           execute = False, enc_cb = False\<rparr>"





section \<open>Reference collaborators and procedures\<close>

text \<open>
  A concrete environment on which the model is evaluated. The outside world is a
  counter of the random draws; every transmission succeeds; the key-derivation functions
  are stand-ins that depend on their arguments. The two helpers of the generic Security
  Manager pause a procedure in the state in which its passkey action is due.
\<close>

fun ref_pkact_state :: "pkact \<Rightarrow> proc_state" where
  "ref_pkact_state BLE_SM_PKACT_NONE = BLE_SM_PROC_STATE_NONE"
| "ref_pkact_state BLE_SM_PKACT_NUMCMP = BLE_SM_PROC_STATE_DHKEY_CHECK"
| "ref_pkact_state BLE_SM_PKACT_OOB = BLE_SM_PROC_STATE_CONFIRM"
| "ref_pkact_state BLE_SM_PKACT_INPUT = BLE_SM_PROC_STATE_CONFIRM"
| "ref_pkact_state BLE_SM_PKACT_DISP = BLE_SM_PROC_STATE_CONFIRM"

definition ref_can_advance :: "proc \<Rightarrow> bool" where
  "ref_can_advance p =
    (ref_pkact_state (fst (ble_sm_sc_passkey_action p)) \<noteq> state p \<or>
     (BLE_SM_PROC_F_IO_INJECTED \<in> flags p \<and> BLE_SM_PROC_F_ADVANCE_ON_IO \<in> flags p))"

definition ref_env :: "nat env" where
  "ref_env =
    \<lparr>ble_sm_gen_pub_priv = (\<lambda>w. (BLE_HS_OK, replicate 64 (of_nat w), replicate 32 (of_nat w + 1), Suc w)),
     ble_hci_util_rand = (\<lambda>n w. (BLE_HS_OK, replicate n (of_nat w), Suc w)),
     ble_sm_gen_pair_rand = (\<lambda>w. (BLE_HS_OK, replicate 16 (of_nat w), Suc w)),
     ble_sm_alg_f4 = (\<lambda>u v x z. (BLE_HS_OK, take 16 (z # x @ u @ v))),
     ble_sm_alg_f5 = (\<lambda>k n1 n2 a1t a1 a2t a2. (BLE_HS_OK, take 16 (n1 @ k), take 16 (n2 @ k))),
     ble_sm_alg_f6 = (\<lambda>k n1 n2 r io a1t a1 a2t a2. (BLE_HS_OK, take 16 (io @ a1 @ n1 @ n2 @ k))),
     ble_sm_alg_g2 = (\<lambda>u v x y. (BLE_HS_OK, 123456)),
     ble_sm_alg_gen_dhkey = (\<lambda>x y k. (BLE_HS_OK, take 32 (x @ y))),
     ble_sm_pair_confirm_tx = (\<lambda>c v w. (BLE_HS_OK, w)),
     ble_sm_pair_random_tx = (\<lambda>c v w. (BLE_HS_OK, w)),
     ble_sm_public_key_tx = (\<lambda>c v w. (BLE_HS_OK, w)),
     ble_sm_dhkey_check_tx = (\<lambda>c v w. (BLE_HS_OK, w)),
     ble_sm_addrs = (\<lambda>p. (BLE_HS_OK, 0, [1, 1, 1, 1, 1, 1], 0, [2, 2, 2, 2, 2, 2])),
     ble_sm_peer_addr = (\<lambda>p. (BLE_HS_OK, 0, [2, 2, 2, 2, 2, 2])),
     bls_hs_priv_copy_local_identity_addr = ([1, 1, 1, 1, 1, 1], 0),
     ble_hs_misc_pullup_base = (\<lambda>om n. if length om < n then BLE_HS_EOTHER 1 else BLE_HS_OK),
     ble_sm_dhkey_check_parse = (\<lambda>om. (BLE_HS_OK, take 16 om)),
     ble_sm_pkact_state = ref_pkact_state,
     ble_sm_proc_can_advance = ref_can_advance\<rparr>"

text \<open>The same collaborators with a generator of key pairs that fails.\<close>

definition failing_gen :: "nat env" where
  "failing_gen = ref_env\<lparr>ble_sm_gen_pub_priv := (\<lambda>w. (BLE_HS_EOTHER 1, [], [], w))\<rparr>"

text \<open>The same collaborators with a random source for the nonce that fails; the buffer
  is left with the sixteen bytes 3 that the reference initiator already has there.\<close>

definition failing_rand :: "nat env" where
  "failing_rand =
    ref_env\<lparr>ble_sm_gen_pair_rand := (\<lambda>w. (BLE_HS_EOTHER 1, replicate 16 3, w))\<rparr>"

text \<open>The same collaborators with a confirm transmitter that leaves a trace: every
  confirm value handed to it adds 100 to the world.\<close>

definition counting_confirm_tx :: "nat env" where
  "counting_confirm_tx =
    ref_env\<lparr>ble_sm_pair_confirm_tx := (\<lambda>c v w. (BLE_HS_OK, w + 100))\<rparr>"

definition ref_keys :: sc_keys where
  "ref_keys = \<lparr>ble_sm_sc_pub_key = replicate 64 7, ble_sm_sc_priv_key = replicate 32 9,
               ble_sm_sc_keys_generated = True\<rparr>"

definition no_keys :: sm_keys where
  "no_keys = \<lparr>ltk_valid = False, ediv_rand_valid = False, ediv = 0, rand_val = 0, keys_ltk = []\<rparr>"

text \<open>A procedure on connection 1 with the given role flags, algorithm, state, I/O
  capabilities (initiator's, responder's) and authentication requirements; the peer's
  confirm value is all zeros.\<close>

definition ref_proc ::
  "proc_flag set \<Rightarrow> pair_alg \<Rightarrow> proc_state \<Rightarrow> io_cap_t \<Rightarrow> io_cap_t \<Rightarrow> u8 \<Rightarrow> proc" where
  "ref_proc fl alg st io_req io_rsp auth =
    \<lparr>conn_handle = 1, state = st, flags = fl, pair_alg = alg,
     pair_req = \<lparr>io_cap = io_req, oob_data_flag = 0, authreq = auth\<rparr>,
     pair_rsp = \<lparr>io_cap = io_rsp, oob_data_flag = 0, authreq = auth\<rparr>,
     tk = [0x15, 0xCD, 0x05, 0, 0, 0, 0, 0, 0, 0, 0, 0, 0, 0, 0, 0],
     confirm_peer = replicate 16 0,
     randm = replicate 16 3, rands = replicate 16 4, ltk = replicate 16 0,
     our_keys = no_keys, peer_keys = no_keys,
     passkey_bits_exchanged = 0, ri = 0,
     pub_key_peer = \<lparr>pk_x = replicate 32 5, pk_y = replicate 32 6\<rparr>,
     mackey = replicate 16 0, dhkey = replicate 32 8\<rparr>"

section \<open>Facts about the reference collaborators and procedures\<close>

lemma replicate_num: "replicate (numeral k) x = x # replicate (pred_numeral k) x"
  by (simp add: numeral_eq_Suc)

lemma ref_env_sel [simp]:
  "ble_sm_gen_pub_priv ref_env w = (BLE_HS_OK, replicate 64 (of_nat w), replicate 32 (of_nat w + 1), Suc w)"
  "ble_hci_util_rand ref_env n w = (BLE_HS_OK, replicate n (of_nat w), Suc w)"
  "ble_sm_gen_pair_rand ref_env w = (BLE_HS_OK, replicate 16 (of_nat w), Suc w)"
  "ble_sm_alg_f4 ref_env u v x z = (BLE_HS_OK, take 16 (z # x @ u @ v))"
  "ble_sm_alg_f5 ref_env k n1 n2 a1t a1 a2t a2 = (BLE_HS_OK, take 16 (n1 @ k), take 16 (n2 @ k))"
  "ble_sm_alg_f6 ref_env k n1 n2 r io a1t a1 a2t a2 = (BLE_HS_OK, take 16 (io @ a1 @ n1 @ n2 @ k))"
  "ble_sm_alg_g2 ref_env u v x y = (BLE_HS_OK, 123456)"
  "ble_sm_alg_gen_dhkey ref_env x y k = (BLE_HS_OK, take 32 (x @ y))"
  "ble_sm_pair_confirm_tx ref_env c v w = (BLE_HS_OK, w)"
  "ble_sm_pair_random_tx ref_env c v w = (BLE_HS_OK, w)"
  "ble_sm_public_key_tx ref_env c pk w = (BLE_HS_OK, w)"
  "ble_sm_dhkey_check_tx ref_env c v w = (BLE_HS_OK, w)"
  "ble_sm_addrs ref_env p = (BLE_HS_OK, 0, [1, 1, 1, 1, 1, 1], 0, [2, 2, 2, 2, 2, 2])"
  "ble_sm_peer_addr ref_env p = (BLE_HS_OK, 0, [2, 2, 2, 2, 2, 2])"
  "bls_hs_priv_copy_local_identity_addr ref_env = ([1, 1, 1, 1, 1, 1], 0)"
  "ble_hs_misc_pullup_base ref_env om n = (if length om < n then BLE_HS_EOTHER 1 else BLE_HS_OK)"
  "ble_sm_dhkey_check_parse ref_env om = (BLE_HS_OK, take 16 om)"
  "ble_sm_pkact_state ref_env = ref_pkact_state"
  "ble_sm_proc_can_advance ref_env = ref_can_advance"
  by (simp_all add: ref_env_def)

lemma ref_proc_sel [simp]:
  "conn_handle (ref_proc fl alg st a b c) = 1"
  "state (ref_proc fl alg st a b c) = st"
  "flags (ref_proc fl alg st a b c) = fl"
  "pair_alg (ref_proc fl alg st a b c) = alg"
  "pair_req (ref_proc fl alg st a b c) = \<lparr>io_cap = a, oob_data_flag = 0, authreq = c\<rparr>"
  "pair_rsp (ref_proc fl alg st a b c) = \<lparr>io_cap = b, oob_data_flag = 0, authreq = c\<rparr>"
  "tk (ref_proc fl alg st a b c) = [0x15, 0xCD, 0x05, 0, 0, 0, 0, 0, 0, 0, 0, 0, 0, 0, 0, 0]"
  "confirm_peer (ref_proc fl alg st a b c) = replicate 16 0"
  "randm (ref_proc fl alg st a b c) = replicate 16 3"
  "rands (ref_proc fl alg st a b c) = replicate 16 4"
  "ltk (ref_proc fl alg st a b c) = replicate 16 0"
  "our_keys (ref_proc fl alg st a b c) = no_keys"
  "peer_keys (ref_proc fl alg st a b c) = no_keys"
  "passkey_bits_exchanged (ref_proc fl alg st a b c) = 0"
  "ri (ref_proc fl alg st a b c) = 0"
  "pub_key_peer (ref_proc fl alg st a b c) = \<lparr>pk_x = replicate 32 5, pk_y = replicate 32 6\<rparr>"
  "mackey (ref_proc fl alg st a b c) = replicate 16 0"
  "dhkey (ref_proc fl alg st a b c) = replicate 32 8"
  by (simp_all add: ref_proc_def)

lemma ref_keys_sel [simp]:
  "ble_sm_sc_pub_key ref_keys = replicate 64 7"
  "ble_sm_sc_priv_key ref_keys = replicate 32 9"
  "ble_sm_sc_keys_generated ref_keys"
  by (simp_all add: ref_keys_def)

section \<open>Capability resolver: the two tables\<close>

text \<open>Away from the one entry where the responder has a display with yes/no and the
  initiator a keyboard with display, both roles derive the same algorithm from the same
  pairing request and response.\<close>

lemma passkey_action_roles_agree:
  "\<not> (io_cap (pair_rsp p) = IO_CAP_DISP_YES_NO \<and> io_cap (pair_req p) = IO_CAP_KEYBOARD_DISP) \<Longrightarrow>
   pair_alg (snd (ble_sm_sc_passkey_action (p\<lparr>flags := insert BLE_SM_PROC_F_INITIATOR fl\<rparr>))) =
   pair_alg (snd (ble_sm_sc_passkey_action (p\<lparr>flags := fl - {BLE_SM_PROC_F_INITIATOR}\<rparr>)))"
  by (cases "io_cap (pair_rsp p)"; cases "io_cap (pair_req p)")
    (simp_all add: ble_sm_sc_passkey_action_def sc_select_action_def ble_sm_sc_init_pka_def
      ble_sm_sc_resp_pka_def)

text \<open>
  C2. The claim is that the initiator's and the responder's resolution of the same two
  capability sets give the same authentication method, for all 25 pairs of I/O
  capabilities. The tables differ at one entry: with a responder that has a display with
  yes/no, an initiator that has a keyboard with display, no OOB data and MITM required,
  the initiator's table holds INPUT, so the initiator selects passkey entry, and the
  responder's table holds NUMCMP, so the responder selects numeric comparison.
\<close>

theorem C2_tables_disagree_kbdisp_dispyesno:
  "sc_select_action (ref_proc {BLE_SM_PROC_F_INITIATOR} BLE_SM_PAIR_ALG_JW
       BLE_SM_PROC_STATE_PUBLIC_KEY IO_CAP_KEYBOARD_DISP IO_CAP_DISP_YES_NO
       BLE_SM_PAIR_AUTHREQ_MITM) = BLE_SM_PKACT_INPUT \<and>
   pair_alg (snd (ble_sm_sc_passkey_action
      (ref_proc {BLE_SM_PROC_F_INITIATOR} BLE_SM_PAIR_ALG_JW BLE_SM_PROC_STATE_PUBLIC_KEY
         IO_CAP_KEYBOARD_DISP IO_CAP_DISP_YES_NO BLE_SM_PAIR_AUTHREQ_MITM)))
     = BLE_SM_PAIR_ALG_PASSKEY \<and>
   sc_select_action (ref_proc {} BLE_SM_PAIR_ALG_JW
       BLE_SM_PROC_STATE_PUBLIC_KEY IO_CAP_KEYBOARD_DISP IO_CAP_DISP_YES_NO
       BLE_SM_PAIR_AUTHREQ_MITM) = BLE_SM_PKACT_NUMCMP \<and>
   pair_alg (snd (ble_sm_sc_passkey_action
      (ref_proc {} BLE_SM_PAIR_ALG_JW BLE_SM_PROC_STATE_PUBLIC_KEY
         IO_CAP_KEYBOARD_DISP IO_CAP_DISP_YES_NO BLE_SM_PAIR_AUTHREQ_MITM)))
     = BLE_SM_PAIR_ALG_NUMCMP"
  by (simp add: ble_sm_sc_passkey_action_def sc_select_action_def ref_proc_def
      BLE_SM_PAIR_AUTHREQ_MITM_def ble_sm_sc_init_pka_def ble_sm_sc_resp_pka_def)

text \<open>The two roles end with different algorithms on the same request and response.\<close>

theorem C2_tables_disagree_kbdisp_dispyesno_witness:
  "pair_alg (snd (ble_sm_sc_passkey_action
      (ref_proc {BLE_SM_PROC_F_INITIATOR} BLE_SM_PAIR_ALG_JW BLE_SM_PROC_STATE_PUBLIC_KEY
         IO_CAP_KEYBOARD_DISP IO_CAP_DISP_YES_NO BLE_SM_PAIR_AUTHREQ_MITM))) \<noteq>
   pair_alg (snd (ble_sm_sc_passkey_action
      (ref_proc {} BLE_SM_PAIR_ALG_JW BLE_SM_PROC_STATE_PUBLIC_KEY
         IO_CAP_KEYBOARD_DISP IO_CAP_DISP_YES_NO BLE_SM_PAIR_AUTHREQ_MITM)))"
  using C2_tables_disagree_kbdisp_dispyesno by simp

section \<open>Key agreement manager: generation happens once\<close>

text \<open>
  C9. \<^verbatim>\<open>ble_sm_sc_ensure_keys_generated\<close> is idempotent. While no key pair is marked
  generated, a successful run of the generator stores its key pair and marks it
  generated. After any successful call, a further call (with any collaborators, in any
  state of the world) returns success and leaves the keys and the world as they are, so
  the generator is not run again and the public key stays the same. A failure of the
  generator is returned to the caller and the keys are not marked generated.
\<close>

theorem C9_ensure_keys_idempotent:
  "(\<not> ble_sm_sc_keys_generated g \<and> ble_sm_gen_pub_priv e w = (BLE_HS_OK, pub, priv, w') \<longrightarrow>
      ble_sm_sc_ensure_keys_generated e g w =
        (BLE_HS_OK, \<lparr>ble_sm_sc_pub_key = pub, ble_sm_sc_priv_key = priv,
                     ble_sm_sc_keys_generated = True\<rparr>, w')) \<and>
   (ble_sm_sc_ensure_keys_generated e g w = (BLE_HS_OK, gk, wk) \<longrightarrow>
      ble_sm_sc_keys_generated gk \<and>
      ble_sm_sc_ensure_keys_generated en gk wn = (BLE_HS_OK, gk, wn) \<and>
      ble_sm_sc_pub_key (fst (snd (ble_sm_sc_ensure_keys_generated en gk wn))) =
        ble_sm_sc_pub_key gk) \<and>
   (\<not> ble_sm_sc_keys_generated g \<and> ble_sm_gen_pub_priv e w = (rc, pub, priv, w') \<and>
    rc \<noteq> BLE_HS_OK \<longrightarrow>
      fst (ble_sm_sc_ensure_keys_generated e g w) = rc \<and>
      \<not> ble_sm_sc_keys_generated (fst (snd (ble_sm_sc_ensure_keys_generated e g w))))"
  by (cases g) (auto simp: ble_sm_sc_ensure_keys_generated_def Let_def split: prod.splits if_splits)

text \<open>The generator of \<open>failing_gen\<close> fails; the one of \<open>ref_env\<close> succeeds.\<close>

theorem C9_ensure_keys_idempotent_witness:
  "ble_sm_sc_ensure_keys_generated ref_env (ble_sm_sc_init ref_keys) 5 =
     (BLE_HS_OK, \<lparr>ble_sm_sc_pub_key = replicate 64 5, ble_sm_sc_priv_key = replicate 32 6,
                  ble_sm_sc_keys_generated = True\<rparr>, 6) \<and>
   ble_sm_sc_ensure_keys_generated failing_gen
     \<lparr>ble_sm_sc_pub_key = replicate 64 5, ble_sm_sc_priv_key = replicate 32 6,
      ble_sm_sc_keys_generated = True\<rparr> 6 =
     (BLE_HS_OK, \<lparr>ble_sm_sc_pub_key = replicate 64 5, ble_sm_sc_priv_key = replicate 32 6,
                  ble_sm_sc_keys_generated = True\<rparr>, 6) \<and>
   fst (ble_sm_sc_ensure_keys_generated failing_gen (ble_sm_sc_init ref_keys) 5) =
     BLE_HS_EOTHER 1 \<and>
   \<not> ble_sm_sc_keys_generated
       (fst (snd (ble_sm_sc_ensure_keys_generated failing_gen (ble_sm_sc_init ref_keys) 5)))"
proof -
  have a: "\<not> ble_sm_sc_keys_generated (ble_sm_sc_init ref_keys)"
    by (simp add: ble_sm_sc_init_def)
  have b: "ble_sm_gen_pub_priv ref_env 5 = (BLE_HS_OK, replicate 64 5, replicate 32 6, 6)"
    by (simp add: ref_env_def)
  have c: "ble_sm_gen_pub_priv failing_gen 5 = (BLE_HS_EOTHER 1, [], [], 5)"
    by (simp add: failing_gen_def)
  from a b have first:
    "ble_sm_sc_ensure_keys_generated ref_env (ble_sm_sc_init ref_keys) 5 =
     (BLE_HS_OK, \<lparr>ble_sm_sc_pub_key = replicate 64 5, ble_sm_sc_priv_key = replicate 32 6,
                  ble_sm_sc_keys_generated = True\<rparr>, 6)"
    using C9_ensure_keys_idempotent [where g = "ble_sm_sc_init ref_keys" and e = ref_env
        and w = 5 and pub = "replicate 64 5" and priv = "replicate 32 6" and w' = 6,
        THEN conjunct1, THEN mp]
    by simp
  from first have second:
    "ble_sm_sc_ensure_keys_generated failing_gen
       \<lparr>ble_sm_sc_pub_key = replicate 64 5, ble_sm_sc_priv_key = replicate 32 6,
        ble_sm_sc_keys_generated = True\<rparr> 6 =
     (BLE_HS_OK, \<lparr>ble_sm_sc_pub_key = replicate 64 5, ble_sm_sc_priv_key = replicate 32 6,
                  ble_sm_sc_keys_generated = True\<rparr>, 6)"
    using C9_ensure_keys_idempotent [where g = "ble_sm_sc_init ref_keys" and e = ref_env
        and w = 5 and wk = 6 and en = failing_gen and wn = 6
        and gk = "\<lparr>ble_sm_sc_pub_key = replicate 64 5, ble_sm_sc_priv_key = replicate 32 6,
                      ble_sm_sc_keys_generated = True\<rparr>",
        THEN conjunct2, THEN conjunct1, THEN mp]
    by simp
  from a c have third:
    "fst (ble_sm_sc_ensure_keys_generated failing_gen (ble_sm_sc_init ref_keys) 5) =
       BLE_HS_EOTHER 1 \<and>
     \<not> ble_sm_sc_keys_generated
       (fst (snd (ble_sm_sc_ensure_keys_generated failing_gen (ble_sm_sc_init ref_keys) 5)))"
    using C9_ensure_keys_idempotent [where g = "ble_sm_sc_init ref_keys" and e = failing_gen
        and w = 5 and rc = "BLE_HS_EOTHER 1" and pub = "[]" and priv = "[]" and w' = 5,
        THEN conjunct2, THEN conjunct2, THEN mp]
    by simp
  from first second third show ?thesis
    by simp
qed

section \<open>The round value\<close>

lemma bit_byte_cons:
  "bit (unat (b :: u8) + 256 * n) i = (if i < 8 then bit b i else bit n (i - 8))"
proof -
  have "bit (unat b + push_bit 8 n) i = (bit (unat b) i \<or> bit (push_bit 8 n) i)"
    by (rule bit_disjunctive_add_iff)
      (auto simp: bit_push_bit_iff bit_unsigned_iff dest: bit_imp_le_length)
  moreover have "unat b + 256 * n = unat b + push_bit 8 n"
    by (simp add: push_bit_eq_mult)
  ultimately show ?thesis
    by (auto simp: bit_push_bit_iff bit_unsigned_iff dest: bit_imp_le_length)
qed

text \<open>Bit \<open>i\<close> of the passkey is bit \<open>i mod 8\<close> of byte \<open>i div 8\<close> of the buffer.\<close>

lemma bit_spec_passkey:
  "i div 8 < length bs \<Longrightarrow> bit (spec_passkey bs) i = bit (bs ! (i div 8)) (i mod 8)"
proof (induction bs arbitrary: i)
  case Nil
  then show ?case by simp
next
  case (Cons b bs)
  show ?case
  proof (cases "i < 8")
    case True
    then show ?thesis
      by (simp add: spec_passkey_def bit_byte_cons)
  next
    case False
    then have "(i - 8) div 8 < length bs" "i div 8 = Suc ((i - 8) div 8)"
      "(i - 8) mod 8 = i mod 8"
      using Cons.prems by (auto simp: le_div_geq le_mod_geq)
    with Cons.IH [of "i - 8"] False show ?thesis
      by (simp add: spec_passkey_def bit_byte_cons)
  qed
qed

lemma and_push_bit_1: "(x AND push_bit n 1 \<noteq> 0) = bit x n" for x :: u8
  by (simp only: bit_iff_and_push_bit_not_eq_0)

lemma gen_ri_passkey:
  "pair_alg p = BLE_SM_PAIR_ALG_PASSKEY \<Longrightarrow>
   ble_sm_sc_gen_ri e w p =
     (BLE_HS_OK, w,
      p\<lparr>ri := 0x80 OR of_bool (bit (tk p ! (unat (passkey_bits_exchanged p) div 8))
                                (unat (passkey_bits_exchanged p) mod 8)),
        passkey_bits_exchanged := passkey_bits_exchanged p + 1\<rparr>)"
  unfolding ble_sm_sc_gen_ri_def Let_def and_push_bit_1
  by simp

text \<open>
  C7. The round value that \<^verbatim>\<open>ble_sm_sc_gen_ri\<close> writes: 0 for just works and numeric
  comparison; for passkey entry 0x80 OR-ed with the bit of the passkey at index
  \<open>passkey_bits_exchanged\<close> (read within the buffer), the counter being incremented
  afterwards; for out-of-band the byte that the random source delivers, together with
  the random source's return code.
\<close>

theorem C7_gen_ri_value:
  "(pair_alg p = BLE_SM_PAIR_ALG_JW \<or> pair_alg p = BLE_SM_PAIR_ALG_NUMCMP \<longrightarrow>
      ble_sm_sc_gen_ri e w p = (BLE_HS_OK, w, p\<lparr>ri := 0\<rparr>)) \<and>
   (pair_alg p = BLE_SM_PAIR_ALG_PASSKEY \<and>
    unat (passkey_bits_exchanged p) div 8 < length (tk p) \<longrightarrow>
      ble_sm_sc_gen_ri e w p =
        (BLE_HS_OK, w,
         p\<lparr>ri := 0x80 OR of_bool (bit (spec_passkey (tk p)) (unat (passkey_bits_exchanged p))),
           passkey_bits_exchanged := passkey_bits_exchanged p + 1\<rparr>)) \<and>
   (pair_alg p = BLE_SM_PAIR_ALG_OOB \<and> ble_hci_util_rand e 1 w = (rc, [r], w') \<longrightarrow>
      ble_sm_sc_gen_ri e w p = (rc, w', p\<lparr>ri := r\<rparr>))"
proof (intro conjI impI)
  assume "pair_alg p = BLE_SM_PAIR_ALG_JW \<or> pair_alg p = BLE_SM_PAIR_ALG_NUMCMP"
  then show "ble_sm_sc_gen_ri e w p = (BLE_HS_OK, w, p\<lparr>ri := 0\<rparr>)"
    by (auto simp: ble_sm_sc_gen_ri_def)
next
  assume a: "pair_alg p = BLE_SM_PAIR_ALG_PASSKEY \<and>
    unat (passkey_bits_exchanged p) div 8 < length (tk p)"
  then show "ble_sm_sc_gen_ri e w p =
        (BLE_HS_OK, w,
         p\<lparr>ri := 0x80 OR of_bool (bit (spec_passkey (tk p)) (unat (passkey_bits_exchanged p))),
           passkey_bits_exchanged := passkey_bits_exchanged p + 1\<rparr>)"
    by (simp add: gen_ri_passkey bit_spec_passkey)
next
  assume "pair_alg p = BLE_SM_PAIR_ALG_OOB \<and> ble_hci_util_rand e 1 w = (rc, [r], w')"
  then show "ble_sm_sc_gen_ri e w p = (rc, w', p\<lparr>ri := r\<rparr>)"
    by (simp add: ble_sm_sc_gen_ri_def)
qed

text \<open>The passkey of the reference procedure is 380181 (0x05CD15); its bits 0 and 1
  are 1 and 0. The random source of the reference environment delivers the byte 9 in
  world 9.\<close>

theorem C7_gen_ri_value_witness:
  "spec_passkey (tk (ref_proc {} BLE_SM_PAIR_ALG_PASSKEY BLE_SM_PROC_STATE_CONFIRM
      IO_CAP_KEYBOARD_ONLY IO_CAP_DISP_ONLY 4)) = 380181 \<and>
   ri (snd (snd (ble_sm_sc_gen_ri ref_env 0
      (ref_proc {} BLE_SM_PAIR_ALG_JW BLE_SM_PROC_STATE_CONFIRM IO_CAP_NO_IO IO_CAP_NO_IO 0)))) = 0 \<and>
   ri (snd (snd (ble_sm_sc_gen_ri ref_env 0
      (ref_proc {} BLE_SM_PAIR_ALG_PASSKEY BLE_SM_PROC_STATE_CONFIRM
         IO_CAP_KEYBOARD_ONLY IO_CAP_DISP_ONLY 4)))) = 0x81 \<and>
   passkey_bits_exchanged (snd (snd (ble_sm_sc_gen_ri ref_env 0
      (ref_proc {} BLE_SM_PAIR_ALG_PASSKEY BLE_SM_PROC_STATE_CONFIRM
         IO_CAP_KEYBOARD_ONLY IO_CAP_DISP_ONLY 4)))) = 1 \<and>
   ri (snd (snd (ble_sm_sc_gen_ri ref_env 0
      ((ref_proc {} BLE_SM_PAIR_ALG_PASSKEY BLE_SM_PROC_STATE_CONFIRM
         IO_CAP_KEYBOARD_ONLY IO_CAP_DISP_ONLY 4)\<lparr>passkey_bits_exchanged := 1\<rparr>)))) = 0x80 \<and>
   ble_sm_sc_gen_ri ref_env 9
      (ref_proc {} BLE_SM_PAIR_ALG_OOB BLE_SM_PROC_STATE_CONFIRM IO_CAP_NO_IO IO_CAP_NO_IO 0) =
     (BLE_HS_OK, 10,
      (ref_proc {} BLE_SM_PAIR_ALG_OOB BLE_SM_PROC_STATE_CONFIRM IO_CAP_NO_IO IO_CAP_NO_IO 0)
        \<lparr>ri := 9\<rparr>)"
proof -
  let ?jw = "ref_proc {} BLE_SM_PAIR_ALG_JW BLE_SM_PROC_STATE_CONFIRM IO_CAP_NO_IO IO_CAP_NO_IO 0"
  let ?pk = "ref_proc {} BLE_SM_PAIR_ALG_PASSKEY BLE_SM_PROC_STATE_CONFIRM
         IO_CAP_KEYBOARD_ONLY IO_CAP_DISP_ONLY 4"
  let ?oob = "ref_proc {} BLE_SM_PAIR_ALG_OOB BLE_SM_PROC_STATE_CONFIRM IO_CAP_NO_IO IO_CAP_NO_IO 0"
  have v: "spec_passkey (tk ?pk) = 380181"
    by (simp add: ref_proc_def spec_passkey_def)
  have b0: "bit (380181 :: nat) 0" and b1: "\<not> bit (380181 :: nat) 1"
    by (simp_all add: bit_iff_odd)
  have jw: "ri (snd (snd (ble_sm_sc_gen_ri ref_env 0 ?jw))) = 0"
    using C7_gen_ri_value [where p = ?jw and e = ref_env and w = 0, THEN conjunct1, THEN mp]
    by (simp add: ref_proc_def)
  have pk0: "ble_sm_sc_gen_ri ref_env 0 ?pk =
      (BLE_HS_OK, 0, ?pk\<lparr>ri := 0x80 OR of_bool (bit (spec_passkey (tk ?pk)) 0),
         passkey_bits_exchanged := 1\<rparr>)"
    using C7_gen_ri_value [where p = ?pk and e = ref_env and w = 0,
        THEN conjunct2, THEN conjunct1, THEN mp]
    by (simp add: ref_proc_def)
  have pk1: "ble_sm_sc_gen_ri ref_env 0 (?pk\<lparr>passkey_bits_exchanged := 1\<rparr>) =
      (BLE_HS_OK, 0, ?pk\<lparr>ri := 0x80 OR of_bool (bit (spec_passkey (tk ?pk)) 1),
         passkey_bits_exchanged := 2\<rparr>)"
    using C7_gen_ri_value [where p = "?pk\<lparr>passkey_bits_exchanged := 1\<rparr>" and e = ref_env
        and w = 0, THEN conjunct2, THEN conjunct1, THEN mp]
    by (simp add: ref_proc_def)
  have oob: "ble_sm_sc_gen_ri ref_env 9 ?oob = (BLE_HS_OK, 10, ?oob\<lparr>ri := 9\<rparr>)"
    using C7_gen_ri_value [where p = ?oob and e = ref_env and w = 9 and rc = BLE_HS_OK
        and r = 9 and w' = 10, THEN conjunct2, THEN conjunct2, THEN mp]
    by (simp add: ref_proc_def ref_env_def)
  from v b0 b1 jw pk0 pk1 oob show ?thesis
    by simp
qed

section \<open>Frame of the Confirm and DHKey-check transmissions\<close>

lemma gen_ri_frame:
  "ble_sm_sc_gen_ri e w p = (rc, w1, p1) \<Longrightarrow>
   p1 = p\<lparr>ri := ri p1, passkey_bits_exchanged := passkey_bits_exchanged p1\<rparr>"
  by (cases "pair_alg p") (auto simp: ble_sm_sc_gen_ri_def Let_def split: prod.splits)

lemma gen_ri_flags:
  "ble_sm_sc_gen_ri e w p = (rc, w1, p1) \<Longrightarrow> flags p1 = flags p"
  by (cases "pair_alg p") (auto simp: ble_sm_sc_gen_ri_def Let_def split: prod.splits)

lemma confirm_go_initiator_frame:
  assumes "BLE_SM_PROC_F_INITIATOR \<in> flags p"
    and "ble_sm_sc_confirm_go e g w p res = (w', p', res')"
  shows "p' = p\<lparr>ri := ri p', passkey_bits_exchanged := passkey_bits_exchanged p'\<rparr>"
proof -
  obtain rc w1 p1 where g: "ble_sm_sc_gen_ri e w p = (rc, w1, p1)"
    by (cases "ble_sm_sc_gen_ri e w p") auto
  from gen_ri_flags [OF g] have fl: "flags p1 = flags p" .
  from assms(2) g assms(1) fl have "p' = p1"
    by (auto simp: ble_sm_sc_confirm_go_def split: prod.splits if_splits)
  with gen_ri_frame [OF g] show ?thesis
    by simp
qed

text \<open>
  C10. For an initiator, whatever the outcome, \<^verbatim>\<open>ble_sm_sc_confirm_go\<close> changes no field
  of the procedure other than \<open>ri\<close> and \<open>passkey_bits_exchanged\<close>; in particular the
  state stays. When the round value, the confirm value and the transmission all succeed,
  the result is untouched and the responder, and only the responder, moves to the
  Random state. Likewise a successful \<^verbatim>\<open>ble_sm_sc_dhkey_check_go\<close> leaves an initiator's
  procedure as it is and moves only the responder's state (to
  \<^verbatim>\<open>BLE_SM_PROC_STATE_LTK_START\<close>).
\<close>

theorem C10_go_steps_advance_responder_only:
  "(BLE_SM_PROC_F_INITIATOR \<in> flags p \<longrightarrow>
      fst (snd (ble_sm_sc_confirm_go e g w p res)) =
        p\<lparr>ri := ri (fst (snd (ble_sm_sc_confirm_go e g w p res))),
          passkey_bits_exchanged :=
            passkey_bits_exchanged (fst (snd (ble_sm_sc_confirm_go e g w p res)))\<rparr>) \<and>
   (ble_sm_sc_gen_ri e w p = (BLE_HS_OK, w1, p1) \<and>
    ble_sm_alg_f4 e (ble_sm_sc_pub_key g) (pk_x (pub_key_peer p1)) (ble_sm_our_pair_rand p1)
      (ri p1) = (BLE_HS_OK, cv) \<and>
    ble_sm_pair_confirm_tx e (conn_handle p1) cv w1 = (BLE_HS_OK, w2) \<longrightarrow>
      ble_sm_sc_confirm_go e g w p res =
        (w2, if BLE_SM_PROC_F_INITIATOR \<in> flags p then p1
             else p1\<lparr>state := BLE_SM_PROC_STATE_RANDOM\<rparr>, res) \<and>
      p1 = p\<lparr>ri := ri p1, passkey_bits_exchanged := passkey_bits_exchanged p1\<rparr>) \<and>
   (ble_sm_peer_addr e p = (BLE_HS_OK, pat, pa) \<and>
    ble_sm_alg_f6 e (mackey p) (ble_sm_our_pair_rand p) (ble_sm_their_pair_rand p) (tk p)
      (if BLE_SM_PROC_F_INITIATOR \<in> flags p then ble_sm_sc_dhkey_check_iocap (pair_req p)
       else ble_sm_sc_dhkey_check_iocap (pair_rsp p))
      (snd (bls_hs_priv_copy_local_identity_addr e)) (fst (bls_hs_priv_copy_local_identity_addr e)) pat pa = (BLE_HS_OK, dv) \<and>
    ble_sm_dhkey_check_tx e (conn_handle p) dv w = (BLE_HS_OK, w3) \<longrightarrow>
      ble_sm_sc_dhkey_check_go e w p res =
        (w3, if BLE_SM_PROC_F_INITIATOR \<in> flags p then p
             else p\<lparr>state := BLE_SM_PROC_STATE_LTK_START\<rparr>, res))"
proof -
  let ?c = "ble_sm_sc_confirm_go e g w p res"
  have A: "BLE_SM_PROC_F_INITIATOR \<in> flags p \<longrightarrow>
      fst (snd ?c) = p\<lparr>ri := ri (fst (snd ?c)),
          passkey_bits_exchanged := passkey_bits_exchanged (fst (snd ?c))\<rparr>"
    using confirm_go_initiator_frame [of p e g w res]
    by (cases ?c) auto
  have B: "ble_sm_sc_gen_ri e w p = (BLE_HS_OK, w1, p1) \<and>
    ble_sm_alg_f4 e (ble_sm_sc_pub_key g) (pk_x (pub_key_peer p1)) (ble_sm_our_pair_rand p1)
      (ri p1) = (BLE_HS_OK, cv) \<and>
    ble_sm_pair_confirm_tx e (conn_handle p1) cv w1 = (BLE_HS_OK, w2) \<longrightarrow>
      ?c = (w2, if BLE_SM_PROC_F_INITIATOR \<in> flags p then p1
             else p1\<lparr>state := BLE_SM_PROC_STATE_RANDOM\<rparr>, res) \<and>
      p1 = p\<lparr>ri := ri p1, passkey_bits_exchanged := passkey_bits_exchanged p1\<rparr>"
  proof (rule impI)
    assume a: "ble_sm_sc_gen_ri e w p = (BLE_HS_OK, w1, p1) \<and>
      ble_sm_alg_f4 e (ble_sm_sc_pub_key g) (pk_x (pub_key_peer p1)) (ble_sm_our_pair_rand p1)
        (ri p1) = (BLE_HS_OK, cv) \<and>
      ble_sm_pair_confirm_tx e (conn_handle p1) cv w1 = (BLE_HS_OK, w2)"
    then have gr: "ble_sm_sc_gen_ri e w p = (BLE_HS_OK, w1, p1)"
      by simp
    have fr: "p1 = p\<lparr>ri := ri p1, passkey_bits_exchanged := passkey_bits_exchanged p1\<rparr>"
      by (rule gen_ri_frame [OF gr])
    have fl: "flags p1 = flags p"
      by (rule gen_ri_flags [OF gr])
    from a fl have "?c = (w2, if BLE_SM_PROC_F_INITIATOR \<in> flags p then p1
             else p1\<lparr>state := BLE_SM_PROC_STATE_RANDOM\<rparr>, res)"
      by (simp add: ble_sm_sc_confirm_go_def)
    from this fr show "?c = (w2, if BLE_SM_PROC_F_INITIATOR \<in> flags p then p1
             else p1\<lparr>state := BLE_SM_PROC_STATE_RANDOM\<rparr>, res) \<and>
      p1 = p\<lparr>ri := ri p1, passkey_bits_exchanged := passkey_bits_exchanged p1\<rparr>"
      by (rule conjI)
  qed
  have C: "ble_sm_peer_addr e p = (BLE_HS_OK, pat, pa) \<and>
    ble_sm_alg_f6 e (mackey p) (ble_sm_our_pair_rand p) (ble_sm_their_pair_rand p) (tk p)
      (if BLE_SM_PROC_F_INITIATOR \<in> flags p then ble_sm_sc_dhkey_check_iocap (pair_req p)
       else ble_sm_sc_dhkey_check_iocap (pair_rsp p))
      (snd (bls_hs_priv_copy_local_identity_addr e)) (fst (bls_hs_priv_copy_local_identity_addr e)) pat pa = (BLE_HS_OK, dv) \<and>
    ble_sm_dhkey_check_tx e (conn_handle p) dv w = (BLE_HS_OK, w3) \<longrightarrow>
      ble_sm_sc_dhkey_check_go e w p res =
        (w3, if BLE_SM_PROC_F_INITIATOR \<in> flags p then p
             else p\<lparr>state := BLE_SM_PROC_STATE_LTK_START\<rparr>, res)"
    by (cases "bls_hs_priv_copy_local_identity_addr e") (simp add: ble_sm_sc_dhkey_check_go_def Let_def)
  show ?thesis
    by (intro conjI A B C)
qed

text \<open>A just-works responder and a passkey initiator of the reference environment run
  the Confirm step, and then the DHKey-check transmission.\<close>

theorem C10_go_steps_advance_responder_only_witness:
  "ble_sm_sc_confirm_go ref_env ref_keys 0
      (ref_proc {} BLE_SM_PAIR_ALG_JW BLE_SM_PROC_STATE_CONFIRM IO_CAP_NO_IO IO_CAP_NO_IO 0) res0 =
     (0, (ref_proc {} BLE_SM_PAIR_ALG_JW BLE_SM_PROC_STATE_CONFIRM IO_CAP_NO_IO IO_CAP_NO_IO 0)
           \<lparr>ri := 0, state := BLE_SM_PROC_STATE_RANDOM\<rparr>, res0) \<and>
   ble_sm_sc_confirm_go ref_env ref_keys 0
      (ref_proc {BLE_SM_PROC_F_INITIATOR} BLE_SM_PAIR_ALG_PASSKEY BLE_SM_PROC_STATE_CONFIRM
         IO_CAP_KEYBOARD_ONLY IO_CAP_DISP_ONLY 4) res0 =
     (0, (ref_proc {BLE_SM_PROC_F_INITIATOR} BLE_SM_PAIR_ALG_PASSKEY BLE_SM_PROC_STATE_CONFIRM
         IO_CAP_KEYBOARD_ONLY IO_CAP_DISP_ONLY 4)\<lparr>ri := 0x81, passkey_bits_exchanged := 1\<rparr>,
      res0) \<and>
   ble_sm_sc_dhkey_check_go ref_env 0
      (ref_proc {} BLE_SM_PAIR_ALG_JW BLE_SM_PROC_STATE_DHKEY_CHECK IO_CAP_NO_IO IO_CAP_NO_IO 0)
      res0 =
     (0, (ref_proc {} BLE_SM_PAIR_ALG_JW BLE_SM_PROC_STATE_DHKEY_CHECK IO_CAP_NO_IO IO_CAP_NO_IO 0)
           \<lparr>state := BLE_SM_PROC_STATE_LTK_START\<rparr>, res0) \<and>
   ble_sm_sc_dhkey_check_go ref_env 0
      (ref_proc {BLE_SM_PROC_F_INITIATOR} BLE_SM_PAIR_ALG_JW BLE_SM_PROC_STATE_DHKEY_CHECK
         IO_CAP_NO_IO IO_CAP_NO_IO 0) res0 =
     (0, ref_proc {BLE_SM_PROC_F_INITIATOR} BLE_SM_PAIR_ALG_JW BLE_SM_PROC_STATE_DHKEY_CHECK
         IO_CAP_NO_IO IO_CAP_NO_IO 0, res0)"
proof -
  let ?r = "ref_proc {} BLE_SM_PAIR_ALG_JW BLE_SM_PROC_STATE_CONFIRM IO_CAP_NO_IO IO_CAP_NO_IO 0"
  let ?i = "ref_proc {BLE_SM_PROC_F_INITIATOR} BLE_SM_PAIR_ALG_PASSKEY BLE_SM_PROC_STATE_CONFIRM
         IO_CAP_KEYBOARD_ONLY IO_CAP_DISP_ONLY 4"
  let ?rd = "ref_proc {} BLE_SM_PAIR_ALG_JW BLE_SM_PROC_STATE_DHKEY_CHECK IO_CAP_NO_IO IO_CAP_NO_IO 0"
  let ?id = "ref_proc {BLE_SM_PROC_F_INITIATOR} BLE_SM_PAIR_ALG_JW BLE_SM_PROC_STATE_DHKEY_CHECK
         IO_CAP_NO_IO IO_CAP_NO_IO 0"
  have gr: "ble_sm_sc_gen_ri ref_env 0 ?r = (BLE_HS_OK, 0, ?r\<lparr>ri := 0\<rparr>)"
    by (simp add: ble_sm_sc_gen_ri_def)
  have gi: "ble_sm_sc_gen_ri ref_env 0 ?i =
      (BLE_HS_OK, 0, ?i\<lparr>ri := 0x81, passkey_bits_exchanged := 1\<rparr>)"
    by (simp add: ble_sm_sc_gen_ri_def)
  have c1: "ble_sm_sc_confirm_go ref_env ref_keys 0 ?r res0 =
      (0, ?r\<lparr>ri := 0, state := BLE_SM_PROC_STATE_RANDOM\<rparr>, res0)"
    using C10_go_steps_advance_responder_only [where p = ?r and e = ref_env and g = ref_keys
        and w = 0 and res = res0 and ?w1.0 = 0 and ?p1.0 = "?r\<lparr>ri := 0\<rparr>" and ?w2.0 = 0
        and cv = "take 16 (0 # replicate 16 4 @ replicate 64 7 @ replicate 32 5)",
        THEN conjunct2, THEN conjunct1, THEN mp, THEN conjunct1]
      gr
    by (simp add: ble_sm_our_pair_rand_def)
  have c2: "ble_sm_sc_confirm_go ref_env ref_keys 0 ?i res0 =
      (0, ?i\<lparr>ri := 0x81, passkey_bits_exchanged := 1\<rparr>, res0)"
    using C10_go_steps_advance_responder_only [where p = ?i and e = ref_env and g = ref_keys
        and w = 0 and res = res0 and ?w1.0 = 0
        and ?p1.0 = "?i\<lparr>ri := 0x81, passkey_bits_exchanged := 1\<rparr>" and ?w2.0 = 0
        and cv = "take 16 (0x81 # replicate 16 3 @ replicate 64 7 @ replicate 32 5)",
        THEN conjunct2, THEN conjunct1, THEN mp, THEN conjunct1]
      gi
    by (simp add: ble_sm_our_pair_rand_def)
  have d1: "ble_sm_sc_dhkey_check_go ref_env 0 ?rd res0 =
      (0, ?rd\<lparr>state := BLE_SM_PROC_STATE_LTK_START\<rparr>, res0)"
    using C10_go_steps_advance_responder_only [where p = ?rd and e = ref_env and w = 0
        and res = res0 and pat = 0 and pa = "[2, 2, 2, 2, 2, 2]" and ?w3.0 = 0
        and dv = "snd (ble_sm_alg_f6 ref_env (mackey ?rd) (ble_sm_our_pair_rand ?rd)
            (ble_sm_their_pair_rand ?rd) (tk ?rd) (ble_sm_sc_dhkey_check_iocap (pair_rsp ?rd))
            0 [1, 1, 1, 1, 1, 1] 0 [2, 2, 2, 2, 2, 2])",
        THEN conjunct2, THEN conjunct2, THEN mp]
    by simp
  have d2: "ble_sm_sc_dhkey_check_go ref_env 0 ?id res0 = (0, ?id, res0)"
    using C10_go_steps_advance_responder_only [where p = ?id and e = ref_env and w = 0
        and res = res0 and pat = 0 and pa = "[2, 2, 2, 2, 2, 2]" and ?w3.0 = 0
        and dv = "snd (ble_sm_alg_f6 ref_env (mackey ?id) (ble_sm_our_pair_rand ?id)
            (ble_sm_their_pair_rand ?id) (tk ?id) (ble_sm_sc_dhkey_check_iocap (pair_req ?id))
            0 [1, 1, 1, 1, 1, 1] 0 [2, 2, 2, 2, 2, 2])",
        THEN conjunct2, THEN conjunct2, THEN mp]
    by simp
  from c1 c2 d1 d2 show ?thesis
    by simp
qed

section \<open>The DHKey check\<close>

lemma proc_find_Some:
  "ble_sm_proc_find procs c s = Some i \<Longrightarrow>
   i < length procs \<and> conn_handle (procs ! i) = c \<and>
   (s = BLE_SM_PROC_STATE_NONE \<or> state (procs ! i) = s)"
proof (induction procs arbitrary: i)
  case Nil
  then show ?case by simp
next
  case (Cons p ps)
  show ?case
  proof (cases "conn_handle p = c \<and> (s = BLE_SM_PROC_STATE_NONE \<or> state p = s)")
    case True
    with Cons.prems show ?thesis by auto
  next
    case False
    with Cons.prems obtain j where "ble_sm_proc_find ps c s = Some j" "i = Suc j"
      by auto
    with Cons.IH [of j] show ?thesis by simp
  qed
qed

lemma dhkey_check_process_mismatch:
  assumes "ble_sm_peer_addr e p = (BLE_HS_OK, pat, pa)"
    and "ble_sm_alg_f6 e (mackey p) (ble_sm_their_pair_rand p) (ble_sm_our_pair_rand p) (tk p)
      (if BLE_SM_PROC_F_INITIATOR \<in> flags p then ble_sm_sc_dhkey_check_iocap (pair_rsp p)
       else ble_sm_sc_dhkey_check_iocap (pair_req p))
      pat pa (snd (bls_hs_priv_copy_local_identity_addr e)) (fst (bls_hs_priv_copy_local_identity_addr e)) = (BLE_HS_OK, exp_value)"
    and "take 16 cmd_value \<noteq> take 16 exp_value"
  shows "ble_sm_dhkey_check_process e p cmd_value res =
    (p, res\<lparr>app_status := BLE_HS_SM_US_ERR BLE_SM_ERR_DHKEY, sm_err := BLE_SM_ERR_DHKEY,
            enc_cb := True\<rparr>)"
  using assms
  by (cases "bls_hs_priv_copy_local_identity_addr e") (simp add: ble_sm_dhkey_check_process_def Let_def)

text \<open>
  C5. \<^verbatim>\<open>ble_sm_dhkey_check_process\<close> computes the expected check value with f6 over
  the MAC key, the peer's nonce before the own one, the peer's capability triple (the
  pairing response for an initiator, the request for a responder) and the peer's address
  before the own one. A received value that differs from it (in its 16 bytes) makes the
  step abort with \<^verbatim>\<open>BLE_SM_ERR_DHKEY\<close>, a code distinct from the confirm mismatch: the
  procedure is left as it is (no move to \<^verbatim>\<open>BLE_SM_PROC_STATE_ENC_START\<close>), the result
  does not ask for the next step, and the store that \<^verbatim>\<open>ble_sm_sc_dhkey_check_rx\<close>
  returns is the one it was given.
\<close>

theorem C5_dhkey_check_mismatch_aborts:
  "ble_sm_peer_addr e p = (BLE_HS_OK, pat, pa) \<and>
   ble_sm_alg_f6 e (mackey p) (ble_sm_their_pair_rand p) (ble_sm_our_pair_rand p) (tk p)
      (if BLE_SM_PROC_F_INITIATOR \<in> flags p then ble_sm_sc_dhkey_check_iocap (pair_rsp p)
       else ble_sm_sc_dhkey_check_iocap (pair_req p))
      pat pa (snd (bls_hs_priv_copy_local_identity_addr e)) (fst (bls_hs_priv_copy_local_identity_addr e)) = (BLE_HS_OK, exp_value) \<and>
   take 16 cmd_value \<noteq> take 16 exp_value \<longrightarrow>
     ble_sm_dhkey_check_process e p cmd_value res =
       (p, res\<lparr>app_status := BLE_HS_SM_US_ERR BLE_SM_ERR_DHKEY, sm_err := BLE_SM_ERR_DHKEY,
               enc_cb := True\<rparr>) \<and>
     execute (snd (ble_sm_dhkey_check_process e p cmd_value res)) = execute res \<and>
     BLE_HS_SM_US_ERR BLE_SM_ERR_DHKEY \<noteq> BLE_HS_SM_US_ERR BLE_SM_ERR_CONFIRM_MISMATCH \<and>
     (ble_hs_misc_pullup_base e om BLE_SM_DHKEY_CHECK_SZ = BLE_HS_OK \<and>
      ble_sm_dhkey_check_parse e om = (BLE_HS_OK, cmd_value) \<and>
      ble_sm_proc_find procs conn BLE_SM_PROC_STATE_DHKEY_CHECK = Some i \<and> procs ! i = p \<longrightarrow>
        ble_sm_sc_dhkey_check_rx e procs conn om res =
          (procs, res\<lparr>app_status := BLE_HS_SM_US_ERR BLE_SM_ERR_DHKEY,
                      sm_err := BLE_SM_ERR_DHKEY, enc_cb := True\<rparr>))"
proof (rule impI)
  assume a: "ble_sm_peer_addr e p = (BLE_HS_OK, pat, pa) \<and>
   ble_sm_alg_f6 e (mackey p) (ble_sm_their_pair_rand p) (ble_sm_our_pair_rand p) (tk p)
      (if BLE_SM_PROC_F_INITIATOR \<in> flags p then ble_sm_sc_dhkey_check_iocap (pair_rsp p)
       else ble_sm_sc_dhkey_check_iocap (pair_req p))
      pat pa (snd (bls_hs_priv_copy_local_identity_addr e)) (fst (bls_hs_priv_copy_local_identity_addr e)) = (BLE_HS_OK, exp_value) \<and>
   take 16 cmd_value \<noteq> take 16 exp_value"
  let ?fail = "\<lambda>r. r\<lparr>app_status := BLE_HS_SM_US_ERR BLE_SM_ERR_DHKEY,
      sm_err := BLE_SM_ERR_DHKEY, enc_cb := True\<rparr>"
  have m: "ble_sm_dhkey_check_process e p cmd_value r = (p, ?fail r)" for r
    using a dhkey_check_process_mismatch [of e p pat pa exp_value cmd_value r] by simp
  have rx: "ble_sm_sc_dhkey_check_rx e procs conn om res = (procs, ?fail res)"
    if h: "ble_hs_misc_pullup_base e om BLE_SM_DHKEY_CHECK_SZ = BLE_HS_OK \<and>
      ble_sm_dhkey_check_parse e om = (BLE_HS_OK, cmd_value) \<and>
      ble_sm_proc_find procs conn BLE_SM_PROC_STATE_DHKEY_CHECK = Some i \<and> procs ! i = p"
  proof -
    from h proc_find_Some [of procs conn BLE_SM_PROC_STATE_DHKEY_CHECK i]
    have "procs[i := p] = procs"
      by (simp add: list_update_same_conv)
    with h m [of "res\<lparr>app_status := BLE_HS_OK\<rparr>"] show ?thesis
      by (simp add: ble_sm_sc_dhkey_check_rx_def Let_def)
  qed
  from m [of res] rx
  show "ble_sm_dhkey_check_process e p cmd_value res = (p, ?fail res) \<and>
     execute (snd (ble_sm_dhkey_check_process e p cmd_value res)) = execute res \<and>
     BLE_HS_SM_US_ERR BLE_SM_ERR_DHKEY \<noteq> BLE_HS_SM_US_ERR BLE_SM_ERR_CONFIRM_MISMATCH \<and>
     (ble_hs_misc_pullup_base e om BLE_SM_DHKEY_CHECK_SZ = BLE_HS_OK \<and>
      ble_sm_dhkey_check_parse e om = (BLE_HS_OK, cmd_value) \<and>
      ble_sm_proc_find procs conn BLE_SM_PROC_STATE_DHKEY_CHECK = Some i \<and> procs ! i = p \<longrightarrow>
        ble_sm_sc_dhkey_check_rx e procs conn om res = (procs, ?fail res))"
    by simp
qed

text \<open>An initiator in the DHKey-check state receives sixteen bytes 0xFF, which is not the
  value the reference f6 gives.\<close>

theorem C5_dhkey_check_mismatch_aborts_witness:
  "ble_sm_sc_dhkey_check_rx ref_env
     [ref_proc {BLE_SM_PROC_F_INITIATOR} BLE_SM_PAIR_ALG_JW BLE_SM_PROC_STATE_DHKEY_CHECK
        IO_CAP_NO_IO IO_CAP_NO_IO 0] 1
     [0xFF, 0xFF, 0xFF, 0xFF, 0xFF, 0xFF, 0xFF, 0xFF, 0xFF, 0xFF, 0xFF, 0xFF, 0xFF, 0xFF, 0xFF, 0xFF]
     res0 =
   ([ref_proc {BLE_SM_PROC_F_INITIATOR} BLE_SM_PAIR_ALG_JW BLE_SM_PROC_STATE_DHKEY_CHECK
        IO_CAP_NO_IO IO_CAP_NO_IO 0],
    res0\<lparr>app_status := BLE_HS_SM_US_ERR BLE_SM_ERR_DHKEY, sm_err := BLE_SM_ERR_DHKEY,
         enc_cb := True\<rparr>)"
proof -
  let ?p = "ref_proc {BLE_SM_PROC_F_INITIATOR} BLE_SM_PAIR_ALG_JW BLE_SM_PROC_STATE_DHKEY_CHECK
        IO_CAP_NO_IO IO_CAP_NO_IO 0"
  let ?om = "[0xFF, 0xFF, 0xFF, 0xFF, 0xFF, 0xFF, 0xFF, 0xFF, 0xFF, 0xFF, 0xFF, 0xFF, 0xFF,
    0xFF, 0xFF, 0xFF] :: bytes"
  let ?exp = "take 16 ([3, 0, 0] @ [2, 2, 2, 2, 2, 2] @ replicate 16 4 @ replicate 16 3
      @ replicate 16 0) :: bytes"
  have f: "ble_sm_alg_f6 ref_env (mackey ?p) (ble_sm_their_pair_rand ?p) (ble_sm_our_pair_rand ?p)
      (tk ?p) (ble_sm_sc_dhkey_check_iocap (pair_rsp ?p)) 0 [2, 2, 2, 2, 2, 2]
      (snd (bls_hs_priv_copy_local_identity_addr ref_env)) (fst (bls_hs_priv_copy_local_identity_addr ref_env))
      = (BLE_HS_OK, ?exp)"
    by (simp add: ble_sm_their_pair_rand_def ble_sm_our_pair_rand_def
        ble_sm_sc_dhkey_check_iocap_def)
  have ne: "take 16 ?om \<noteq> take 16 ?exp"
    by simp
  have fi: "ble_sm_proc_find [?p] 1 BLE_SM_PROC_STATE_DHKEY_CHECK = Some 0"
    by simp
  show ?thesis
    using C5_dhkey_check_mismatch_aborts [where e = ref_env and p = ?p and pat = 0
        and pa = "[2, 2, 2, 2, 2, 2]" and exp_value = ?exp and cmd_value = ?om
        and om = ?om and procs = "[?p]" and conn = 1 and i = 0 and res = res0]
      f ne fi
    by (simp add: BLE_SM_DHKEY_CHECK_SZ_def)
qed

text \<open>The value that \<^verbatim>\<open>ble_sm_sc_dhkey_check_go\<close> computes on the peer is the value
  that \<^verbatim>\<open>ble_sm_dhkey_check_process\<close> expects here: \<open>q\<close> is the peer's procedure for the
  same pairing (the other role, the same request, response, temporary key, MAC key and
  nonces) and the peer's own address is the one this side knows it by, and conversely.\<close>

lemma dhkey_check_value_of_peer_expected:
  assumes role: "(BLE_SM_PROC_F_INITIATOR \<in> flags q) = (BLE_SM_PROC_F_INITIATOR \<notin> flags p)"
    and same: "pair_req q = pair_req p" "pair_rsp q = pair_rsp p" "tk q = tk p"
      "mackey q = mackey p" "randm q = randm p" "rands q = rands p"
    and addrs: "ble_sm_peer_addr e p = (BLE_HS_OK, pat, pa)"
      "bls_hs_priv_copy_local_identity_addr e = (oa, oat)"
      "bls_hs_priv_copy_local_identity_addr e' = (pa, pat)" "ble_sm_peer_addr e' q = (BLE_HS_OK, oat, oa)"
    and f6: "ble_sm_alg_f6 e' = ble_sm_alg_f6 e"
  shows "ble_sm_alg_f6 e' (mackey q) (ble_sm_our_pair_rand q) (ble_sm_their_pair_rand q) (tk q)
      (if BLE_SM_PROC_F_INITIATOR \<in> flags q then ble_sm_sc_dhkey_check_iocap (pair_req q)
       else ble_sm_sc_dhkey_check_iocap (pair_rsp q))
      (snd (bls_hs_priv_copy_local_identity_addr e')) (fst (bls_hs_priv_copy_local_identity_addr e')) oat oa =
    ble_sm_alg_f6 e (mackey p) (ble_sm_their_pair_rand p) (ble_sm_our_pair_rand p) (tk p)
      (if BLE_SM_PROC_F_INITIATOR \<in> flags p then ble_sm_sc_dhkey_check_iocap (pair_rsp p)
       else ble_sm_sc_dhkey_check_iocap (pair_req p))
      pat pa (snd (bls_hs_priv_copy_local_identity_addr e)) (fst (bls_hs_priv_copy_local_identity_addr e))"
  using assms by (simp add: ble_sm_our_pair_rand_def ble_sm_their_pair_rand_def)

section \<open>The Random step\<close>

lemma random_rx_mismatch:
  assumes "BLE_SM_PROC_F_INITIATOR \<in> flags p \<or> pair_alg p = BLE_SM_PAIR_ALG_PASSKEY \<or>
      pair_alg p = BLE_SM_PAIR_ALG_OOB"
    and "ble_sm_alg_f4 e (pk_x (pub_key_peer p)) (ble_sm_sc_pub_key g)
      (ble_sm_their_pair_rand p) (ri p) = (BLE_HS_OK, cv)"
    and "take 16 (confirm_peer p) \<noteq> take 16 cv"
  shows "ble_sm_sc_random_rx e g w p res =
    (w, p, res\<lparr>app_status := BLE_HS_SM_US_ERR BLE_SM_ERR_CONFIRM_MISMATCH,
              sm_err := BLE_SM_ERR_UNSPECIFIED, enc_cb := True\<rparr>)"
  using assms
  by (auto simp: ble_sm_sc_random_rx_def ble_sm_sc_responder_verifies_random_def)

lemma random_rx_match:
  assumes "ble_sm_alg_f4 e (pk_x (pub_key_peer p)) (ble_sm_sc_pub_key g)
      (ble_sm_their_pair_rand p) (ri p) = (BLE_HS_OK, cv)"
    and "take 16 (confirm_peer p) = take 16 cv"
  shows "ble_sm_sc_random_rx e g w p res = sc_random_rx_keys e g w p res"
  using assms by (simp add: ble_sm_sc_random_rx_def)

lemma random_rx_skip:
  assumes "BLE_SM_PROC_F_INITIATOR \<notin> flags p"
    and "pair_alg p = BLE_SM_PAIR_ALG_JW \<or> pair_alg p = BLE_SM_PAIR_ALG_NUMCMP"
  shows "ble_sm_sc_random_rx e g w p res = sc_random_rx_keys e g w p res"
  using assms
  by (auto simp: ble_sm_sc_random_rx_def ble_sm_sc_responder_verifies_random_def)

lemma random_rx_keys_responder:
  assumes "BLE_SM_PROC_F_INITIATOR \<notin> flags p"
    and "ble_sm_addrs e p = (BLE_HS_OK, iat, ia, rat, ra)"
    and "ble_sm_alg_f5 e (dhkey p) (randm p) (rands p) iat ia rat ra = (BLE_HS_OK, mk, lt)"
  shows "sc_random_rx_keys e g w p res =
    (w, p\<lparr>mackey := mk, ltk := lt, our_keys := with_ltk lt (our_keys p),
           peer_keys := with_ltk lt (peer_keys p)\<rparr>, res\<lparr>execute := True\<rparr>)"
  using assms by (simp add: sc_random_rx_keys_def Let_def with_ltk_def)

text \<open>The steps that follow the derivation of the keys leave them as they are.\<close>

lemma apply_action_keys:
  "ltk (sc_apply_action a p) = ltk p \<and> mackey (sc_apply_action a p) = mackey p \<and>
   our_keys (sc_apply_action a p) = our_keys p \<and> peer_keys (sc_apply_action a p) = peer_keys p \<and>
   state (sc_apply_action a p) = state p"
  by (cases a) simp_all

lemma random_advance_keys:
  "ble_sm_sc_random_advance e w p = (rc, w', p') \<Longrightarrow>
   ltk p' = ltk p \<and> mackey p' = mackey p \<and> our_keys p' = our_keys p \<and>
   peer_keys p' = peer_keys p"
  by (auto simp: ble_sm_sc_random_advance_def set_our_pair_rand_def
      split: if_splits prod.splits)

lemma numcmp_if_due_keys:
  "sc_numcmp_if_due e g p res = (due, p', res') \<Longrightarrow>
   ltk p' = ltk p \<and> mackey p' = mackey p \<and> our_keys p' = our_keys p \<and>
   peer_keys p' = peer_keys p"
  by (auto simp: sc_numcmp_if_due_def ble_sm_sc_passkey_action_def Let_def apply_action_keys
      split: if_splits)

lemma random_rx_keys_written:
  assumes "ble_sm_addrs e p = (BLE_HS_OK, iat, ia, rat, ra)"
    and "ble_sm_alg_f5 e (dhkey p) (randm p) (rands p) iat ia rat ra = (BLE_HS_OK, mk, lt)"
    and "sc_random_rx_keys e g w p res = (w', p', res')"
  shows "ltk p' = lt \<and> mackey p' = mk \<and> our_keys p' = with_ltk lt (our_keys p) \<and>
    peer_keys p' = with_ltk lt (peer_keys p)"
proof (cases "BLE_SM_PROC_F_INITIATOR \<in> flags p")
  case False
  with assms random_rx_keys_responder [of p e iat ia rat ra mk lt g w res] show ?thesis
    by auto
next
  case True
  let ?p2 = "p\<lparr>mackey := mk, ltk := lt, our_keys := with_ltk lt (our_keys p),
           peer_keys := with_ltk lt (peer_keys p)\<rparr>"
  obtain rc w1 p3 where adv: "ble_sm_sc_random_advance e w ?p2 = (rc, w1, p3)"
    by (cases "ble_sm_sc_random_advance e w ?p2") auto
  obtain due p4 res1 where nc: "sc_numcmp_if_due e g p3 res = (due, p4, res1)"
    by (cases "sc_numcmp_if_due e g p3 res") auto
  from assms True adv nc have "p' = p4"
    by (simp add: sc_random_rx_keys_def Let_def with_ltk_def)
  with random_advance_keys [OF adv] numcmp_if_due_keys [OF nc] show ?thesis
    by simp
qed

text \<open>The derivation of the keys and what follows it do not call f4.\<close>

lemma random_rx_keys_f4:
  "sc_random_rx_keys (e\<lparr>ble_sm_alg_f4 := f\<rparr>) g w p res = sc_random_rx_keys e g w p res"
  by (simp add: sc_random_rx_keys_def ble_sm_sc_random_advance_def sc_numcmp_if_due_def
      ble_sm_sc_gen_numcmp_def Let_def cong: prod.case_cong if_cong)

text \<open>
  C1. The claim gives the verifying roles the wrong way round. As the code has it, the
  initiator recomputes and compares the confirm value for every algorithm, and the
  responder does so only for passkey entry and out-of-band: a just-works responder whose
  stored confirm value differs from the recomputed one goes on to derive the keys, and a
  just-works initiator in the same situation aborts.
\<close>

theorem C1_responder_always_verifies_counterexample:
  "take 16 (confirm_peer (ref_proc {} BLE_SM_PAIR_ALG_JW BLE_SM_PROC_STATE_RANDOM
       IO_CAP_NO_IO IO_CAP_NO_IO 0)) \<noteq>
     take 16 (snd (ble_sm_alg_f4 ref_env (replicate 32 5) (replicate 64 7) (replicate 16 3) 0)) \<and>
   snd (snd (ble_sm_sc_random_rx ref_env ref_keys 0
     (ref_proc {} BLE_SM_PAIR_ALG_JW BLE_SM_PROC_STATE_RANDOM IO_CAP_NO_IO IO_CAP_NO_IO 0) res0))
     = res0\<lparr>execute := True\<rparr> \<and>
   take 16 (confirm_peer (ref_proc {BLE_SM_PROC_F_INITIATOR} BLE_SM_PAIR_ALG_JW
       BLE_SM_PROC_STATE_RANDOM IO_CAP_NO_IO IO_CAP_NO_IO 0)) \<noteq>
     take 16 (snd (ble_sm_alg_f4 ref_env (replicate 32 5) (replicate 64 7) (replicate 16 4) 0)) \<and>
   ble_sm_sc_random_rx ref_env ref_keys 0
     (ref_proc {BLE_SM_PROC_F_INITIATOR} BLE_SM_PAIR_ALG_JW BLE_SM_PROC_STATE_RANDOM
        IO_CAP_NO_IO IO_CAP_NO_IO 0) res0
     = (0, ref_proc {BLE_SM_PROC_F_INITIATOR} BLE_SM_PAIR_ALG_JW BLE_SM_PROC_STATE_RANDOM
        IO_CAP_NO_IO IO_CAP_NO_IO 0,
        res0\<lparr>app_status := BLE_HS_SM_US_ERR BLE_SM_ERR_CONFIRM_MISMATCH,
             sm_err := BLE_SM_ERR_UNSPECIFIED, enc_cb := True\<rparr>)"
proof -
  let ?r = "ref_proc {} BLE_SM_PAIR_ALG_JW BLE_SM_PROC_STATE_RANDOM IO_CAP_NO_IO IO_CAP_NO_IO 0"
  let ?i = "ref_proc {BLE_SM_PROC_F_INITIATOR} BLE_SM_PAIR_ALG_JW BLE_SM_PROC_STATE_RANDOM
        IO_CAP_NO_IO IO_CAP_NO_IO 0"
  have a: "take 16 (confirm_peer ?r) \<noteq>
      take 16 (snd (ble_sm_alg_f4 ref_env (replicate 32 5) (replicate 64 7) (replicate 16 3) 0))"
    by (simp add: replicate_num)
  have b: "take 16 (confirm_peer ?i) \<noteq>
      take 16 (snd (ble_sm_alg_f4 ref_env (replicate 32 5) (replicate 64 7) (replicate 16 4) 0))"
    by (simp add: replicate_num)
  have c: "ble_sm_sc_random_rx ref_env ref_keys 0 ?r res0 =
      sc_random_rx_keys ref_env ref_keys 0 ?r res0"
    by (rule random_rx_skip) simp_all
  have d: "snd (snd (sc_random_rx_keys ref_env ref_keys 0 ?r res0)) = res0\<lparr>execute := True\<rparr>"
    by (simp add: random_rx_keys_responder [where iat = 0 and ia = "[1, 1, 1, 1, 1, 1]"
          and rat = 0 and ra = "[2, 2, 2, 2, 2, 2]"
          and mk = "take 16 (replicate 16 3 @ replicate 32 8)"
          and lt = "take 16 (replicate 16 4 @ replicate 32 8)"])
  have e: "ble_sm_sc_random_rx ref_env ref_keys 0 ?i res0 =
      (0, ?i, res0\<lparr>app_status := BLE_HS_SM_US_ERR BLE_SM_ERR_CONFIRM_MISMATCH,
                   sm_err := BLE_SM_ERR_UNSPECIFIED, enc_cb := True\<rparr>)"
    using b
    by (intro random_rx_mismatch [where cv = "take 16 (0 # replicate 16 4 @ replicate 32 5
          @ replicate 64 7)"])
      (simp_all add: ble_sm_their_pair_rand_def)
  from a b c d e show ?thesis
    by simp
qed

text \<open>
  C1 as amended. When the recomputed confirm value (f4 over the peer's public key, the
  own public key, the peer's nonce and the round value) differs from the stored one, an
  initiator aborts with the confirm mismatch for every algorithm, and so does a
  responder for passkey entry and out-of-band. A responder in just works or numeric
  comparison does not call f4 at all (the step is the same with any other f4) and, when
  the addresses and f5 are available, stores the keys and asks for the next step.
\<close>

theorem C1_initiator_verifies_responder_skips:
  "ble_sm_alg_f4 e (pk_x (pub_key_peer p)) (ble_sm_sc_pub_key g) (ble_sm_their_pair_rand p)
      (ri p) = (BLE_HS_OK, cv) \<and>
   take 16 (confirm_peer p) \<noteq> take 16 cv \<longrightarrow>
     (BLE_SM_PROC_F_INITIATOR \<in> flags p \<or> pair_alg p = BLE_SM_PAIR_ALG_PASSKEY \<or>
      pair_alg p = BLE_SM_PAIR_ALG_OOB \<longrightarrow>
        ble_sm_sc_random_rx e g w p res =
          (w, p, res\<lparr>app_status := BLE_HS_SM_US_ERR BLE_SM_ERR_CONFIRM_MISMATCH,
                    sm_err := BLE_SM_ERR_UNSPECIFIED, enc_cb := True\<rparr>)) \<and>
     (BLE_SM_PROC_F_INITIATOR \<notin> flags p \<and>
      (pair_alg p = BLE_SM_PAIR_ALG_JW \<or> pair_alg p = BLE_SM_PAIR_ALG_NUMCMP) \<longrightarrow>
        ble_sm_sc_random_rx (e\<lparr>ble_sm_alg_f4 := f\<rparr>) g w p res =
          ble_sm_sc_random_rx e g w p res \<and>
        (ble_sm_addrs e p = (BLE_HS_OK, iat, ia, rat, ra) \<and>
         ble_sm_alg_f5 e (dhkey p) (randm p) (rands p) iat ia rat ra = (BLE_HS_OK, mk, lt) \<longrightarrow>
           ble_sm_sc_random_rx e g w p res =
             (w, p\<lparr>mackey := mk, ltk := lt, our_keys := with_ltk lt (our_keys p),
                    peer_keys := with_ltk lt (peer_keys p)\<rparr>, res\<lparr>execute := True\<rparr>)))"
proof (intro impI conjI)
  assume a: "ble_sm_alg_f4 e (pk_x (pub_key_peer p)) (ble_sm_sc_pub_key g)
      (ble_sm_their_pair_rand p) (ri p) = (BLE_HS_OK, cv) \<and>
    take 16 (confirm_peer p) \<noteq> take 16 cv"
  {
    assume "BLE_SM_PROC_F_INITIATOR \<in> flags p \<or> pair_alg p = BLE_SM_PAIR_ALG_PASSKEY \<or>
      pair_alg p = BLE_SM_PAIR_ALG_OOB"
    with a show "ble_sm_sc_random_rx e g w p res =
          (w, p, res\<lparr>app_status := BLE_HS_SM_US_ERR BLE_SM_ERR_CONFIRM_MISMATCH,
                    sm_err := BLE_SM_ERR_UNSPECIFIED, enc_cb := True\<rparr>)"
      using random_rx_mismatch [of p e g cv w res] by simp
  }
  assume r: "BLE_SM_PROC_F_INITIATOR \<notin> flags p \<and>
      (pair_alg p = BLE_SM_PAIR_ALG_JW \<or> pair_alg p = BLE_SM_PAIR_ALG_NUMCMP)"
  then have s: "ble_sm_sc_random_rx e' g w p res = sc_random_rx_keys e' g w p res" for e'
    using random_rx_skip [of p e' g w res] by simp
  show "ble_sm_sc_random_rx (e\<lparr>ble_sm_alg_f4 := f\<rparr>) g w p res =
      ble_sm_sc_random_rx e g w p res"
    by (simp add: s random_rx_keys_f4)
  assume "ble_sm_addrs e p = (BLE_HS_OK, iat, ia, rat, ra) \<and>
    ble_sm_alg_f5 e (dhkey p) (randm p) (rands p) iat ia rat ra = (BLE_HS_OK, mk, lt)"
  with r show "ble_sm_sc_random_rx e g w p res =
      (w, p\<lparr>mackey := mk, ltk := lt, our_keys := with_ltk lt (our_keys p),
             peer_keys := with_ltk lt (peer_keys p)\<rparr>, res\<lparr>execute := True\<rparr>)"
    using random_rx_keys_responder [of p e iat ia rat ra mk lt g w res] by (simp add: s)
qed

text \<open>In the reference environment the stored confirm value (zeros) differs from the
  recomputed one: a passkey responder and a just-works initiator abort, a just-works
  responder stores the keys, also when f4 is replaced by a function that fails.\<close>

theorem C1_initiator_verifies_responder_skips_witness:
  "ble_sm_sc_random_rx ref_env ref_keys 0
     (ref_proc {} BLE_SM_PAIR_ALG_PASSKEY BLE_SM_PROC_STATE_RANDOM
        IO_CAP_KEYBOARD_ONLY IO_CAP_DISP_ONLY 4) res0
     = (0, ref_proc {} BLE_SM_PAIR_ALG_PASSKEY BLE_SM_PROC_STATE_RANDOM
        IO_CAP_KEYBOARD_ONLY IO_CAP_DISP_ONLY 4,
        res0\<lparr>app_status := BLE_HS_SM_US_ERR BLE_SM_ERR_CONFIRM_MISMATCH,
             sm_err := BLE_SM_ERR_UNSPECIFIED, enc_cb := True\<rparr>) \<and>
   ble_sm_sc_random_rx ref_env ref_keys 0
     (ref_proc {BLE_SM_PROC_F_INITIATOR} BLE_SM_PAIR_ALG_JW BLE_SM_PROC_STATE_RANDOM
        IO_CAP_NO_IO IO_CAP_NO_IO 0) res0
     = (0, ref_proc {BLE_SM_PROC_F_INITIATOR} BLE_SM_PAIR_ALG_JW BLE_SM_PROC_STATE_RANDOM
        IO_CAP_NO_IO IO_CAP_NO_IO 0,
        res0\<lparr>app_status := BLE_HS_SM_US_ERR BLE_SM_ERR_CONFIRM_MISMATCH,
             sm_err := BLE_SM_ERR_UNSPECIFIED, enc_cb := True\<rparr>) \<and>
   ble_sm_sc_random_rx (ref_env\<lparr>ble_sm_alg_f4 := (\<lambda>u v x z. (BLE_HS_EUNKNOWN, []))\<rparr>) ref_keys 0
     (ref_proc {} BLE_SM_PAIR_ALG_JW BLE_SM_PROC_STATE_RANDOM IO_CAP_NO_IO IO_CAP_NO_IO 0) res0
     = (0, (ref_proc {} BLE_SM_PAIR_ALG_JW BLE_SM_PROC_STATE_RANDOM IO_CAP_NO_IO IO_CAP_NO_IO 0)
          \<lparr>mackey := replicate 16 3, ltk := replicate 16 4,
           our_keys := with_ltk (replicate 16 4) no_keys,
           peer_keys := with_ltk (replicate 16 4) no_keys\<rparr>, res0\<lparr>execute := True\<rparr>)"
proof -
  let ?rp = "ref_proc {} BLE_SM_PAIR_ALG_PASSKEY BLE_SM_PROC_STATE_RANDOM
        IO_CAP_KEYBOARD_ONLY IO_CAP_DISP_ONLY 4"
  let ?ij = "ref_proc {BLE_SM_PROC_F_INITIATOR} BLE_SM_PAIR_ALG_JW BLE_SM_PROC_STATE_RANDOM
        IO_CAP_NO_IO IO_CAP_NO_IO 0"
  let ?rj = "ref_proc {} BLE_SM_PAIR_ALG_JW BLE_SM_PROC_STATE_RANDOM IO_CAP_NO_IO IO_CAP_NO_IO 0"
  let ?cm = "take 16 (0 # replicate 16 3 @ replicate 32 5 @ replicate 64 7) :: bytes"
  let ?cs = "take 16 (0 # replicate 16 4 @ replicate 32 5 @ replicate 64 7) :: bytes"
  have nm: "take 16 (replicate 16 0) \<noteq> take 16 ?cm" and ns: "take 16 (replicate 16 0) \<noteq> take 16 ?cs"
    by (simp_all add: replicate_num)
  have t: "take 16 (replicate 16 (x :: u8) @ ys) = replicate 16 x" for x ys
    by simp
  have a: "ble_sm_sc_random_rx ref_env ref_keys 0 ?rp res0 =
      (0, ?rp, res0\<lparr>app_status := BLE_HS_SM_US_ERR BLE_SM_ERR_CONFIRM_MISMATCH,
             sm_err := BLE_SM_ERR_UNSPECIFIED, enc_cb := True\<rparr>)"
    using C1_initiator_verifies_responder_skips [where e = ref_env and p = ?rp and g = ref_keys
        and cv = ?cm and w = 0 and res = res0, THEN mp, THEN conjunct1, THEN mp] nm
    by (simp add: ble_sm_their_pair_rand_def)
  have b: "ble_sm_sc_random_rx ref_env ref_keys 0 ?ij res0 =
      (0, ?ij, res0\<lparr>app_status := BLE_HS_SM_US_ERR BLE_SM_ERR_CONFIRM_MISMATCH,
             sm_err := BLE_SM_ERR_UNSPECIFIED, enc_cb := True\<rparr>)"
    using C1_initiator_verifies_responder_skips [where e = ref_env and p = ?ij and g = ref_keys
        and cv = ?cs and w = 0 and res = res0, THEN mp, THEN conjunct1, THEN mp] ns
    by (simp add: ble_sm_their_pair_rand_def)
  have c: "ble_sm_sc_random_rx (ref_env\<lparr>ble_sm_alg_f4 := (\<lambda>u v x z. (BLE_HS_EUNKNOWN, []))\<rparr>)
      ref_keys 0 ?rj res0 =
      (0, ?rj\<lparr>mackey := replicate 16 3, ltk := replicate 16 4,
           our_keys := with_ltk (replicate 16 4) no_keys,
           peer_keys := with_ltk (replicate 16 4) no_keys\<rparr>, res0\<lparr>execute := True\<rparr>)"
    using C1_initiator_verifies_responder_skips [where e = ref_env and p = ?rj and g = ref_keys
        and cv = ?cm and w = 0 and res = res0 and f = "\<lambda>u v x z. (BLE_HS_EUNKNOWN, [])"
        and iat = 0 and ia = "[1, 1, 1, 1, 1, 1]" and rat = 0 and ra = "[2, 2, 2, 2, 2, 2]"
        and mk = "replicate 16 3" and lt = "replicate 16 4",
        THEN mp, THEN conjunct2, THEN mp] nm
    by (simp add: ble_sm_their_pair_rand_def t)
  from a b c show ?thesis
    by simp
qed

text \<open>
  C4. On a confirm mismatch the Random step stops at once: the procedure is returned as it
  was (no key is derived or stored) and the application status is the confirm mismatch.
  The Security Manager error code of the result, the one that goes to the peer, is
  \<^verbatim>\<open>BLE_SM_ERR_UNSPECIFIED\<close> and not the confirm mismatch, unlike the DHKey-check
  mismatch, whose result carries \<^verbatim>\<open>BLE_SM_ERR_DHKEY\<close> in both fields. Evaluated for a
  passkey initiator whose stored confirm value is not the recomputed one.
\<close>

theorem C4_confirm_mismatch_sm_err_unspecified:
  "ble_sm_sc_random_rx ref_env ref_keys 0
     (ref_proc {BLE_SM_PROC_F_INITIATOR} BLE_SM_PAIR_ALG_PASSKEY BLE_SM_PROC_STATE_RANDOM
        IO_CAP_KEYBOARD_ONLY IO_CAP_DISP_ONLY 4) res0
   = (0, ref_proc {BLE_SM_PROC_F_INITIATOR} BLE_SM_PAIR_ALG_PASSKEY BLE_SM_PROC_STATE_RANDOM
        IO_CAP_KEYBOARD_ONLY IO_CAP_DISP_ONLY 4,
      res0\<lparr>app_status := BLE_HS_SM_US_ERR BLE_SM_ERR_CONFIRM_MISMATCH,
           sm_err := BLE_SM_ERR_UNSPECIFIED, enc_cb := True\<rparr>)"
proof -
  have "take 16 (replicate 16 (0 :: u8)) \<noteq>
      take 16 (0 # replicate 16 4 @ replicate 32 5 @ replicate 64 7)"
    by (simp add: replicate_num)
  then show ?thesis
    by (intro random_rx_mismatch [where cv = "take 16 (0 # replicate 16 4 @ replicate 32 5
          @ replicate 64 7)"])
      (simp_all add: ble_sm_their_pair_rand_def)
qed

theorem C4_confirm_mismatch_sm_err_unspecified_witness:
  "sm_err (snd (snd (ble_sm_sc_random_rx ref_env ref_keys 0
     (ref_proc {BLE_SM_PROC_F_INITIATOR} BLE_SM_PAIR_ALG_PASSKEY BLE_SM_PROC_STATE_RANDOM
        IO_CAP_KEYBOARD_ONLY IO_CAP_DISP_ONLY 4) res0))) \<noteq> BLE_SM_ERR_CONFIRM_MISMATCH \<and>
   app_status (snd (snd (ble_sm_sc_random_rx ref_env ref_keys 0
     (ref_proc {BLE_SM_PROC_F_INITIATOR} BLE_SM_PAIR_ALG_PASSKEY BLE_SM_PROC_STATE_RANDOM
        IO_CAP_KEYBOARD_ONLY IO_CAP_DISP_ONLY 4) res0))) =
     BLE_HS_SM_US_ERR BLE_SM_ERR_CONFIRM_MISMATCH"
  using C4_confirm_mismatch_sm_err_unspecified by simp

section \<open>When the LTK is written\<close>

lemma passkey_action_keys:
  "ble_sm_sc_passkey_action p = (a, p') \<Longrightarrow>
   ltk p' = ltk p \<and> mackey p' = mackey p \<and> our_keys p' = our_keys p \<and>
   peer_keys p' = peer_keys p \<and> state p' = state p"
  by (auto simp: ble_sm_sc_passkey_action_def Let_def apply_action_keys)

lemma dhkey_check_process_keys:
  assumes "ble_sm_dhkey_check_process e p cmd_value res = (p', res')"
  shows "ltk p' = ltk p \<and> mackey p' = mackey p \<and> our_keys p' = our_keys p \<and>
    peer_keys p' = peer_keys p"
proof -
  obtain a p1 where pa: "ble_sm_sc_passkey_action p = (a, p1)"
    by (cases "ble_sm_sc_passkey_action p") auto
  from assms pa passkey_action_keys [OF pa] show ?thesis
    by (auto simp: ble_sm_dhkey_check_process_def Let_def split: prod.splits if_splits)
qed

lemma dhkey_check_process_advances:
  assumes "ble_sm_dhkey_check_process e p cmd_value res = (p', res')"
    and "(state p' = BLE_SM_PROC_STATE_ENC_START \<and> state p \<noteq> BLE_SM_PROC_STATE_ENC_START) \<or>
      (execute res' \<and> \<not> execute res)"
  shows "fst (ble_sm_peer_addr e p) = BLE_HS_OK \<and>
    (\<exists>exp_value.
       ble_sm_alg_f6 e (mackey p) (ble_sm_their_pair_rand p) (ble_sm_our_pair_rand p) (tk p)
         (if BLE_SM_PROC_F_INITIATOR \<in> flags p then ble_sm_sc_dhkey_check_iocap (pair_rsp p)
          else ble_sm_sc_dhkey_check_iocap (pair_req p))
         (fst (snd (ble_sm_peer_addr e p))) (snd (snd (ble_sm_peer_addr e p)))
         (snd (bls_hs_priv_copy_local_identity_addr e)) (fst (bls_hs_priv_copy_local_identity_addr e)) = (BLE_HS_OK, exp_value) \<and>
       take 16 cmd_value = take 16 exp_value)"
proof -
  obtain a p1 where pa: "ble_sm_sc_passkey_action p = (a, p1)"
    by (cases "ble_sm_sc_passkey_action p") auto
  from assms pa passkey_action_keys [OF pa] show ?thesis
    by (cases "bls_hs_priv_copy_local_identity_addr e")
      (auto simp: ble_sm_dhkey_check_process_def Let_def split: prod.splits if_splits)
qed

text \<open>
  C3. The claim is that the LTK is written only after the DHKey-check comparison has
  succeeded. A just-works responder that receives the peer's nonce in the Random state has
  its LTK stored and marked valid by that step, while no DHKey check has been received:
  the store holds no procedure in the DHKey-check state for
  \<^verbatim>\<open>ble_sm_sc_dhkey_check_rx\<close> to find.
\<close>

theorem C3_ltk_only_after_dhkey_check_counterexample:
  "\<not> ltk_valid (our_keys (ref_proc {} BLE_SM_PAIR_ALG_JW BLE_SM_PROC_STATE_RANDOM
       IO_CAP_NO_IO IO_CAP_NO_IO 0)) \<and>
   ble_sm_proc_find [ref_proc {} BLE_SM_PAIR_ALG_JW BLE_SM_PROC_STATE_RANDOM
       IO_CAP_NO_IO IO_CAP_NO_IO 0] 1 BLE_SM_PROC_STATE_DHKEY_CHECK = None \<and>
   ltk_valid (our_keys (fst (snd (ble_sm_sc_random_rx ref_env ref_keys 0
     (ref_proc {} BLE_SM_PAIR_ALG_JW BLE_SM_PROC_STATE_RANDOM IO_CAP_NO_IO IO_CAP_NO_IO 0)
     res0)))) \<and>
   keys_ltk (our_keys (fst (snd (ble_sm_sc_random_rx ref_env ref_keys 0
     (ref_proc {} BLE_SM_PAIR_ALG_JW BLE_SM_PROC_STATE_RANDOM IO_CAP_NO_IO IO_CAP_NO_IO 0)
     res0)))) = replicate 16 4 \<and>
   state (fst (snd (ble_sm_sc_random_rx ref_env ref_keys 0
     (ref_proc {} BLE_SM_PAIR_ALG_JW BLE_SM_PROC_STATE_RANDOM IO_CAP_NO_IO IO_CAP_NO_IO 0)
     res0))) = BLE_SM_PROC_STATE_RANDOM"
proof -
  let ?rj = "ref_proc {} BLE_SM_PAIR_ALG_JW BLE_SM_PROC_STATE_RANDOM IO_CAP_NO_IO IO_CAP_NO_IO 0"
  have "ble_sm_sc_random_rx ref_env ref_keys 0 ?rj res0 =
      sc_random_rx_keys ref_env ref_keys 0 ?rj res0"
    by (rule random_rx_skip) simp_all
  also have "\<dots> = (0, ?rj\<lparr>mackey := replicate 16 3, ltk := replicate 16 4,
           our_keys := with_ltk (replicate 16 4) no_keys,
           peer_keys := with_ltk (replicate 16 4) no_keys\<rparr>, res0\<lparr>execute := True\<rparr>)"
    by (simp add: random_rx_keys_responder [where iat = 0 and ia = "[1, 1, 1, 1, 1, 1]"
          and rat = 0 and ra = "[2, 2, 2, 2, 2, 2]"
          and mk = "replicate 16 3" and lt = "replicate 16 4"])
  finally show ?thesis
    by (simp add: with_ltk_def no_keys_def)
qed

text \<open>
  C3 as amended. The LTK is written by the Random step: once the confirm value has been
  verified (or the role skips the verification) and the addresses and f5 are available,
  \<^verbatim>\<open>ble_sm_sc_random_rx\<close> stores the LTK that f5 returns in the procedure and in both key
  records, marked valid, before any DHKey check is received. The DHKey-check step never
  writes the LTK, the MAC key or the key records; it moves the procedure to
  \<^verbatim>\<open>BLE_SM_PROC_STATE_ENC_START\<close>, or asks for the next step, only when the received check
  value equals the expected f6 value.
\<close>

theorem C3_ltk_written_in_random_step:
  "(ble_sm_addrs e p = (BLE_HS_OK, iat, ia, rat, ra) \<and>
    ble_sm_alg_f5 e (dhkey p) (randm p) (rands p) iat ia rat ra = (BLE_HS_OK, mk, lt) \<and>
    (BLE_SM_PROC_F_INITIATOR \<notin> flags p \<and>
       (pair_alg p = BLE_SM_PAIR_ALG_JW \<or> pair_alg p = BLE_SM_PAIR_ALG_NUMCMP) \<or>
     ble_sm_alg_f4 e (pk_x (pub_key_peer p)) (ble_sm_sc_pub_key g) (ble_sm_their_pair_rand p)
         (ri p) = (BLE_HS_OK, cv) \<and>
       take 16 (confirm_peer p) = take 16 cv) \<longrightarrow>
      ltk (fst (snd (ble_sm_sc_random_rx e g w p res))) = lt \<and>
      mackey (fst (snd (ble_sm_sc_random_rx e g w p res))) = mk \<and>
      our_keys (fst (snd (ble_sm_sc_random_rx e g w p res))) = with_ltk lt (our_keys p) \<and>
      peer_keys (fst (snd (ble_sm_sc_random_rx e g w p res))) = with_ltk lt (peer_keys p) \<and>
      ltk_valid (our_keys (fst (snd (ble_sm_sc_random_rx e g w p res))))) \<and>
   ltk (fst (ble_sm_dhkey_check_process e p cmd_value res)) = ltk p \<and>
   mackey (fst (ble_sm_dhkey_check_process e p cmd_value res)) = mackey p \<and>
   our_keys (fst (ble_sm_dhkey_check_process e p cmd_value res)) = our_keys p \<and>
   peer_keys (fst (ble_sm_dhkey_check_process e p cmd_value res)) = peer_keys p \<and>
   ((state (fst (ble_sm_dhkey_check_process e p cmd_value res)) = BLE_SM_PROC_STATE_ENC_START \<and>
       state p \<noteq> BLE_SM_PROC_STATE_ENC_START) \<or>
     (execute (snd (ble_sm_dhkey_check_process e p cmd_value res)) \<and> \<not> execute res) \<longrightarrow>
      fst (ble_sm_peer_addr e p) = BLE_HS_OK \<and>
      (\<exists>exp_value.
         ble_sm_alg_f6 e (mackey p) (ble_sm_their_pair_rand p) (ble_sm_our_pair_rand p) (tk p)
           (if BLE_SM_PROC_F_INITIATOR \<in> flags p then ble_sm_sc_dhkey_check_iocap (pair_rsp p)
            else ble_sm_sc_dhkey_check_iocap (pair_req p))
           (fst (snd (ble_sm_peer_addr e p))) (snd (snd (ble_sm_peer_addr e p)))
           (snd (bls_hs_priv_copy_local_identity_addr e)) (fst (bls_hs_priv_copy_local_identity_addr e)) = (BLE_HS_OK, exp_value) \<and>
         take 16 cmd_value = take 16 exp_value))"
proof -
  let ?R = "ble_sm_sc_random_rx e g w p res"
  let ?D = "ble_sm_dhkey_check_process e p cmd_value res"
  have A: "ltk (fst (snd ?R)) = lt \<and> mackey (fst (snd ?R)) = mk \<and>
      our_keys (fst (snd ?R)) = with_ltk lt (our_keys p) \<and>
      peer_keys (fst (snd ?R)) = with_ltk lt (peer_keys p) \<and>
      ltk_valid (our_keys (fst (snd ?R)))"
    if h: "ble_sm_addrs e p = (BLE_HS_OK, iat, ia, rat, ra) \<and>
      ble_sm_alg_f5 e (dhkey p) (randm p) (rands p) iat ia rat ra = (BLE_HS_OK, mk, lt) \<and>
      (BLE_SM_PROC_F_INITIATOR \<notin> flags p \<and>
         (pair_alg p = BLE_SM_PAIR_ALG_JW \<or> pair_alg p = BLE_SM_PAIR_ALG_NUMCMP) \<or>
       ble_sm_alg_f4 e (pk_x (pub_key_peer p)) (ble_sm_sc_pub_key g) (ble_sm_their_pair_rand p)
           (ri p) = (BLE_HS_OK, cv) \<and>
         take 16 (confirm_peer p) = take 16 cv)"
  proof -
    from h have "?R = sc_random_rx_keys e g w p res"
      using random_rx_skip [of p e g w res] random_rx_match [of e p g cv w res] by auto
    moreover obtain w' p' res' where k: "sc_random_rx_keys e g w p res = (w', p', res')"
      by (cases "sc_random_rx_keys e g w p res") auto
    moreover from h have "ltk p' = lt \<and> mackey p' = mk \<and>
        our_keys p' = with_ltk lt (our_keys p) \<and> peer_keys p' = with_ltk lt (peer_keys p)"
      using random_rx_keys_written [OF _ _ k, of iat ia rat ra mk lt] by simp
    ultimately show ?thesis
      by (simp add: with_ltk_def)
  qed
  obtain p' res' where d: "?D = (p', res')"
    by (cases ?D) auto
  have B: "ltk (fst ?D) = ltk p" "mackey (fst ?D) = mackey p" "our_keys (fst ?D) = our_keys p"
    "peer_keys (fst ?D) = peer_keys p"
    using dhkey_check_process_keys [OF d] d by simp_all
  have C: "(state (fst ?D) = BLE_SM_PROC_STATE_ENC_START \<and>
       state p \<noteq> BLE_SM_PROC_STATE_ENC_START) \<or>
     (execute (snd ?D) \<and> \<not> execute res) \<longrightarrow>
      fst (ble_sm_peer_addr e p) = BLE_HS_OK \<and>
      (\<exists>exp_value.
         ble_sm_alg_f6 e (mackey p) (ble_sm_their_pair_rand p) (ble_sm_our_pair_rand p) (tk p)
           (if BLE_SM_PROC_F_INITIATOR \<in> flags p then ble_sm_sc_dhkey_check_iocap (pair_rsp p)
            else ble_sm_sc_dhkey_check_iocap (pair_req p))
           (fst (snd (ble_sm_peer_addr e p))) (snd (snd (ble_sm_peer_addr e p)))
           (snd (bls_hs_priv_copy_local_identity_addr e)) (fst (bls_hs_priv_copy_local_identity_addr e)) = (BLE_HS_OK, exp_value) \<and>
         take 16 cmd_value = take 16 exp_value)"
    using dhkey_check_process_advances [OF d] d by simp
  from A have A': "ble_sm_addrs e p = (BLE_HS_OK, iat, ia, rat, ra) \<and>
      ble_sm_alg_f5 e (dhkey p) (randm p) (rands p) iat ia rat ra = (BLE_HS_OK, mk, lt) \<and>
      (BLE_SM_PROC_F_INITIATOR \<notin> flags p \<and>
         (pair_alg p = BLE_SM_PAIR_ALG_JW \<or> pair_alg p = BLE_SM_PAIR_ALG_NUMCMP) \<or>
       ble_sm_alg_f4 e (pk_x (pub_key_peer p)) (ble_sm_sc_pub_key g) (ble_sm_their_pair_rand p)
           (ri p) = (BLE_HS_OK, cv) \<and>
         take 16 (confirm_peer p) = take 16 cv) \<longrightarrow>
      ltk (fst (snd ?R)) = lt \<and> mackey (fst (snd ?R)) = mk \<and>
      our_keys (fst (snd ?R)) = with_ltk lt (our_keys p) \<and>
      peer_keys (fst (snd ?R)) = with_ltk lt (peer_keys p) \<and>
      ltk_valid (our_keys (fst (snd ?R)))"
    by (rule impI)
  show ?thesis
    by (rule conjI [OF A' conjI [OF B(1) conjI [OF B(2) conjI [OF B(3) conjI [OF B(4) C]]]]])
qed

text \<open>A just-works responder has its LTK stored by the Random step, and a just-works
  initiator that receives the expected check value moves to the encryption start.\<close>

theorem C3_ltk_written_in_random_step_witness:
  "our_keys (fst (snd (ble_sm_sc_random_rx ref_env ref_keys 0
     (ref_proc {} BLE_SM_PAIR_ALG_JW BLE_SM_PROC_STATE_RANDOM IO_CAP_NO_IO IO_CAP_NO_IO 0)
     res0))) = with_ltk (replicate 16 4) no_keys \<and>
   state (fst (ble_sm_dhkey_check_process ref_env
     (ref_proc {BLE_SM_PROC_F_INITIATOR} BLE_SM_PAIR_ALG_JW BLE_SM_PROC_STATE_DHKEY_CHECK
        IO_CAP_NO_IO IO_CAP_NO_IO 0)
     [3, 0, 0, 2, 2, 2, 2, 2, 2, 4, 4, 4, 4, 4, 4, 4] res0)) = BLE_SM_PROC_STATE_ENC_START \<and>
   (\<exists>exp_value.
      ble_sm_alg_f6 ref_env (replicate 16 0) (replicate 16 4) (replicate 16 3)
        [0x15, 0xCD, 0x05, 0, 0, 0, 0, 0, 0, 0, 0, 0, 0, 0, 0, 0] [3, 0, 0]
        0 [2, 2, 2, 2, 2, 2] 0 [1, 1, 1, 1, 1, 1] = (BLE_HS_OK, exp_value) \<and>
      take 16 [3, 0, 0, 2, 2, 2, 2, 2, 2, 4, 4, 4, 4, 4, 4, 4] = take 16 exp_value)"
proof -
  let ?rj = "ref_proc {} BLE_SM_PAIR_ALG_JW BLE_SM_PROC_STATE_RANDOM IO_CAP_NO_IO IO_CAP_NO_IO 0"
  let ?id = "ref_proc {BLE_SM_PROC_F_INITIATOR} BLE_SM_PAIR_ALG_JW BLE_SM_PROC_STATE_DHKEY_CHECK
        IO_CAP_NO_IO IO_CAP_NO_IO 0"
  let ?cmd = "[3, 0, 0, 2, 2, 2, 2, 2, 2, 4, 4, 4, 4, 4, 4, 4] :: bytes"
  have t: "take 16 (replicate 16 (x :: u8) @ ys) = replicate 16 x" for x ys
    by simp
  have a: "our_keys (fst (snd (ble_sm_sc_random_rx ref_env ref_keys 0 ?rj res0))) =
      with_ltk (replicate 16 4) no_keys"
    using C3_ltk_written_in_random_step [where e = ref_env and p = ?rj and g = ref_keys
        and w = 0 and res = res0 and iat = 0 and ia = "[1, 1, 1, 1, 1, 1]" and rat = 0
        and ra = "[2, 2, 2, 2, 2, 2]" and mk = "replicate 16 3" and lt = "replicate 16 4",
        THEN conjunct1, THEN mp]
    by (simp add: t)
  have s: "state (fst (ble_sm_dhkey_check_process ref_env ?id ?cmd res0)) =
      BLE_SM_PROC_STATE_ENC_START"
    by (simp add: ble_sm_dhkey_check_process_def ble_sm_sc_passkey_action_def
        sc_select_action_def ref_can_advance_def ble_sm_sc_dhkey_check_iocap_def
        ble_sm_their_pair_rand_def ble_sm_our_pair_rand_def replicate_num)
  have b: "\<exists>exp_value.
      ble_sm_alg_f6 ref_env (replicate 16 0) (replicate 16 4) (replicate 16 3)
        [0x15, 0xCD, 0x05, 0, 0, 0, 0, 0, 0, 0, 0, 0, 0, 0, 0, 0] [3, 0, 0]
        0 [2, 2, 2, 2, 2, 2] 0 [1, 1, 1, 1, 1, 1] = (BLE_HS_OK, exp_value) \<and>
      take 16 ?cmd = take 16 exp_value"
    using C3_ltk_written_in_random_step [where e = ref_env and p = ?id and cmd_value = ?cmd
        and res = res0, THEN conjunct2, THEN conjunct2, THEN conjunct2, THEN conjunct2,
        THEN conjunct2, THEN mp] s
    by (simp add: ble_sm_sc_dhkey_check_iocap_def ble_sm_their_pair_rand_def
        ble_sm_our_pair_rand_def)
  from a s b show ?thesis
    by (intro conjI)
qed

section \<open>The passkey rounds\<close>

lemma random_advance_loop:
  assumes "pair_alg p = BLE_SM_PAIR_ALG_PASSKEY" and "unat (passkey_bits_exchanged p) < 20"
    and "ble_sm_gen_pair_rand e w = (rc, v, w')"
  shows "ble_sm_sc_random_advance e w p =
    (rc, w', set_our_pair_rand v (p\<lparr>state := BLE_SM_PROC_STATE_CONFIRM\<rparr>))"
  using assms by (simp add: ble_sm_sc_random_advance_def BLE_SM_SC_PASSKEY_BITS_def)

lemma random_advance_done:
  assumes "pair_alg p \<noteq> BLE_SM_PAIR_ALG_PASSKEY \<or> 20 \<le> unat (passkey_bits_exchanged p)"
  shows "ble_sm_sc_random_advance e w p = (BLE_HS_OK, w, p\<lparr>state := BLE_SM_PROC_STATE_DHKEY_CHECK\<rparr>)"
  using assms by (auto simp: ble_sm_sc_random_advance_def BLE_SM_SC_PASSKEY_BITS_def)

lemma set_our_pair_rand_sel [simp]:
  "ble_sm_our_pair_rand (set_our_pair_rand v p) = v"
  "state (set_our_pair_rand v p) = state p"
  "pair_alg (set_our_pair_rand v p) = pair_alg p"
  "passkey_bits_exchanged (set_our_pair_rand v p) = passkey_bits_exchanged p"
  by (simp_all add: set_our_pair_rand_def ble_sm_our_pair_rand_def)

lemma random_advance_state:
  "state (snd (snd (ble_sm_sc_random_advance e w q))) =
    (if pair_alg q = BLE_SM_PAIR_ALG_PASSKEY \<and> unat (passkey_bits_exchanged q) < 20
     then BLE_SM_PROC_STATE_CONFIRM else BLE_SM_PROC_STATE_DHKEY_CHECK)"
  by (cases "ble_sm_gen_pair_rand e w")
    (auto simp: random_advance_loop random_advance_done)

lemma unat_bits_Suc:
  "unat (b :: u8) < 20 \<Longrightarrow> unat (b + 1) = Suc (unat b)"
  by (simp add: unat_word_ariths)

text \<open>Of the steps of a round only the Confirm step touches the counter.\<close>

lemma apply_action_bits:
  "passkey_bits_exchanged (sc_apply_action a p) = passkey_bits_exchanged p"
  by (cases a) simp_all

lemma random_advance_bits:
  "ble_sm_sc_random_advance e w p = (rc, w', p') \<Longrightarrow>
   passkey_bits_exchanged p' = passkey_bits_exchanged p"
  by (auto simp: ble_sm_sc_random_advance_def set_our_pair_rand_def
      split: if_splits prod.splits)

lemma numcmp_if_due_bits:
  "sc_numcmp_if_due e g p res = (due, p', res') \<Longrightarrow>
   passkey_bits_exchanged p' = passkey_bits_exchanged p"
  by (auto simp: sc_numcmp_if_due_def ble_sm_sc_passkey_action_def Let_def apply_action_bits
      split: if_splits)

lemma confirm_go_bits:
  assumes "pair_alg p = BLE_SM_PAIR_ALG_PASSKEY"
  shows "passkey_bits_exchanged (fst (snd (ble_sm_sc_confirm_go e g w p res))) =
    passkey_bits_exchanged p + 1"
  using assms
  by (simp add: ble_sm_sc_confirm_go_def gen_ri_passkey split: prod.splits)

lemma random_go_bits:
  "passkey_bits_exchanged (fst (snd (ble_sm_sc_random_go e g w p res))) =
    passkey_bits_exchanged p"
proof -
  obtain rc w1 where tx: "ble_sm_pair_random_tx e (conn_handle p)
      (take 16 (ble_sm_our_pair_rand p)) w = (rc, w1)"
    by (cases "ble_sm_pair_random_tx e (conn_handle p) (take 16 (ble_sm_our_pair_rand p)) w") auto
  obtain ra w2 p1 where adv: "ble_sm_sc_random_advance e w1 p = (ra, w2, p1)"
    by (cases "ble_sm_sc_random_advance e w1 p") auto
  obtain due p2 res1 where nc: "sc_numcmp_if_due e g p1 res = (due, p2, res1)"
    by (cases "sc_numcmp_if_due e g p1 res") auto
  from tx adv nc random_advance_bits [OF adv] numcmp_if_due_bits [OF nc] show ?thesis
    by (simp add: ble_sm_sc_random_go_def)
qed

lemma random_rx_keys_bits:
  "passkey_bits_exchanged (fst (snd (sc_random_rx_keys e g w p res))) =
    passkey_bits_exchanged p"
proof -
  obtain rc iat ia rat ra where ad: "ble_sm_addrs e p = (rc, iat, ia, rat, ra)"
    by (cases "ble_sm_addrs e p") auto
  obtain rf mk lt where f5: "ble_sm_alg_f5 e (dhkey p) (randm p) (rands p) iat ia rat ra
      = (rf, mk, lt)"
    by (cases "ble_sm_alg_f5 e (dhkey p) (randm p) (rands p) iat ia rat ra") auto
  let ?p2 = "p\<lparr>mackey := mk, ltk := lt, our_keys := with_ltk lt (our_keys p),
      peer_keys := with_ltk lt (peer_keys p)\<rparr>"
  obtain rv w1 p3 where adv: "ble_sm_sc_random_advance e w ?p2 = (rv, w1, p3)"
    by (cases "ble_sm_sc_random_advance e w ?p2") auto
  obtain due p4 res1 where nc: "sc_numcmp_if_due e g p3 res = (due, p4, res1)"
    by (cases "sc_numcmp_if_due e g p3 res") auto
  from ad f5 adv nc random_advance_bits [OF adv] numcmp_if_due_bits [OF nc] show ?thesis
    by (simp add: sc_random_rx_keys_def Let_def with_ltk_def)
qed

lemma random_rx_bits:
  "passkey_bits_exchanged (fst (snd (ble_sm_sc_random_rx e g w p res))) =
    passkey_bits_exchanged p"
  by (simp add: ble_sm_sc_random_rx_def random_rx_keys_bits split: prod.splits)

lemma apply_action_frame:
  "state (sc_apply_action a p) = state p"
  "conn_handle (sc_apply_action a p) = conn_handle p"
  "(BLE_SM_PROC_F_INITIATOR \<in> flags (sc_apply_action a p)) = (BLE_SM_PROC_F_INITIATOR \<in> flags p)"
  "(BLE_SM_PROC_F_IO_INJECTED \<in> flags (sc_apply_action a p)) = (BLE_SM_PROC_F_IO_INJECTED \<in> flags p)"
  "randm (sc_apply_action a p) = randm p"
  "rands (sc_apply_action a p) = rands p"
  by (cases a; simp)+

lemma passkey_action_frame:
  "state (snd (ble_sm_sc_passkey_action p)) = state p"
  "conn_handle (snd (ble_sm_sc_passkey_action p)) = conn_handle p"
  "(BLE_SM_PROC_F_INITIATOR \<in> flags (snd (ble_sm_sc_passkey_action p))) =
     (BLE_SM_PROC_F_INITIATOR \<in> flags p)"
  "(BLE_SM_PROC_F_IO_INJECTED \<in> flags (snd (ble_sm_sc_passkey_action p))) =
     (BLE_SM_PROC_F_IO_INJECTED \<in> flags p)"
  "randm (snd (ble_sm_sc_passkey_action p)) = randm p"
  "rands (snd (ble_sm_sc_passkey_action p)) = rands p"
  "passkey_bits_exchanged (snd (ble_sm_sc_passkey_action p)) = passkey_bits_exchanged p"
  by (simp_all add: ble_sm_sc_passkey_action_def Let_def apply_action_frame apply_action_bits)

lemma passkey_action_our_pair_rand:
  "ble_sm_our_pair_rand (snd (ble_sm_sc_passkey_action p)) = ble_sm_our_pair_rand p"
  by (simp add: ble_sm_our_pair_rand_def passkey_action_frame)

lemma numcmp_if_due_injected:
  "BLE_SM_PROC_F_IO_INJECTED \<in> flags p \<Longrightarrow>
   sc_numcmp_if_due e g p res = (False, snd (ble_sm_sc_passkey_action p), res)"
proof -
  assume inj: "BLE_SM_PROC_F_IO_INJECTED \<in> flags p"
  obtain a p1 where pa: "ble_sm_sc_passkey_action p = (a, p1)"
    by (cases "ble_sm_sc_passkey_action p") auto
  with inj passkey_action_frame(4) [of p] have "BLE_SM_PROC_F_IO_INJECTED \<in> flags p1"
    by simp
  with pa show ?thesis
    by (simp add: sc_numcmp_if_due_def)
qed

lemma numcmp_if_due_state:
  "state (fst (snd (sc_numcmp_if_due e g p res))) = state p"
  using passkey_action_frame(1) [of p]
  by (cases "ble_sm_sc_passkey_action p") (simp add: sc_numcmp_if_due_def)

text \<open>The responder's Random step, when the nonce has been sent and the advance has
  succeeded, ends where \<^verbatim>\<open>ble_sm_sc_random_advance\<close> says.\<close>

lemma random_go_responder_state:
  assumes "BLE_SM_PROC_F_INITIATOR \<notin> flags p"
    and "ble_sm_pair_random_tx e (conn_handle p) (take 16 (ble_sm_our_pair_rand p)) w
          = (BLE_HS_OK, w1)"
    and "fst (ble_sm_sc_random_advance e w1 p) = BLE_HS_OK"
  shows "state (fst (snd (ble_sm_sc_random_go e g w p res))) =
    (if pair_alg p = BLE_SM_PAIR_ALG_PASSKEY \<and> unat (passkey_bits_exchanged p) < 20
     then BLE_SM_PROC_STATE_CONFIRM else BLE_SM_PROC_STATE_DHKEY_CHECK)"
proof -
  obtain rc w2 p1 where adv: "ble_sm_sc_random_advance e w1 p = (rc, w2, p1)"
    by (cases "ble_sm_sc_random_advance e w1 p") auto
  with assms(3) have rc: "rc = BLE_HS_OK"
    by simp
  from adv random_advance_state [of e w1 p] have st: "state p1 =
      (if pair_alg p = BLE_SM_PAIR_ALG_PASSKEY \<and> unat (passkey_bits_exchanged p) < 20
       then BLE_SM_PROC_STATE_CONFIRM else BLE_SM_PROC_STATE_DHKEY_CHECK)"
    by simp
  obtain due p2 res1 where nc: "sc_numcmp_if_due e g p1 res = (due, p2, res1)"
    by (cases "sc_numcmp_if_due e g p1 res") auto
  with numcmp_if_due_state [of e g p1 res] have "state p2 = state p1"
    by simp
  with assms(1,2) adv rc nc st show ?thesis
    by (simp add: ble_sm_sc_random_go_def)
qed

text \<open>The initiator's Random step of a passkey round that is not the last: whatever the
  random source returns, the step goes back to the Confirm state and asks for the next
  step.\<close>

lemma random_rx_initiator_next_round:
  assumes "BLE_SM_PROC_F_INITIATOR \<in> flags p" and "BLE_SM_PROC_F_IO_INJECTED \<in> flags p"
    and "pair_alg p = BLE_SM_PAIR_ALG_PASSKEY" and "unat (passkey_bits_exchanged p) < 20"
    and "ble_sm_alg_f4 e (pk_x (pub_key_peer p)) (ble_sm_sc_pub_key g) (ble_sm_their_pair_rand p)
          (ri p) = (BLE_HS_OK, cv)"
    and "take 16 (confirm_peer p) = take 16 cv"
    and "ble_sm_addrs e p = (BLE_HS_OK, iat, ia, rat, ra)"
    and "ble_sm_alg_f5 e (dhkey p) (randm p) (rands p) iat ia rat ra = (BLE_HS_OK, mk, lt)"
    and "ble_sm_gen_pair_rand e w = (rc, v, w')"
  shows "ble_sm_sc_random_rx e g w p res =
    (w', snd (ble_sm_sc_passkey_action
       (p\<lparr>mackey := mk, ltk := lt, our_keys := with_ltk lt (our_keys p),
          peer_keys := with_ltk lt (peer_keys p), state := BLE_SM_PROC_STATE_CONFIRM,
          randm := v\<rparr>)),
     res\<lparr>execute := True\<rparr>)"
proof -
  let ?p2 = "p\<lparr>mackey := mk, ltk := lt, our_keys := with_ltk lt (our_keys p),
      peer_keys := with_ltk lt (peer_keys p)\<rparr>"
  let ?p3 = "?p2\<lparr>state := BLE_SM_PROC_STATE_CONFIRM, randm := v\<rparr>"
  from assms have adv: "ble_sm_sc_random_advance e w ?p2 = (rc, w', ?p3)"
    by (simp add: random_advance_loop set_our_pair_rand_def)
  from assms have due: "sc_numcmp_if_due e g ?p3 res =
      (False, snd (ble_sm_sc_passkey_action ?p3), res)"
    by (simp add: numcmp_if_due_injected)
  from assms adv due have "sc_random_rx_keys e g w p res =
      (w', snd (ble_sm_sc_passkey_action ?p3), res\<lparr>execute := True\<rparr>)"
    by (simp add: sc_random_rx_keys_def Let_def with_ltk_def)
  with assms show ?thesis
    by (simp add: ble_sm_sc_random_rx_def)
qed

text \<open>The responder's Random step checks the return code.\<close>

lemma random_go_responder_rng_failure:
  assumes "BLE_SM_PROC_F_INITIATOR \<notin> flags p"
    and "pair_alg p = BLE_SM_PAIR_ALG_PASSKEY" and "unat (passkey_bits_exchanged p) < 20"
    and "ble_sm_pair_random_tx e (conn_handle p) (take 16 (ble_sm_our_pair_rand p)) w
          = (BLE_HS_OK, w1)"
    and "ble_sm_gen_pair_rand e w1 = (rc, v, w')" and "rc \<noteq> BLE_HS_OK"
  shows "ble_sm_sc_random_go e g w p res =
    (w', p\<lparr>state := BLE_SM_PROC_STATE_CONFIRM, rands := v\<rparr>, res_fail rc res)"
  using assms
  by (simp add: ble_sm_sc_random_go_def random_advance_loop set_our_pair_rand_def)

text \<open>
  C6. Where the claim says that a fresh nonce is generated before each new round, the
  code diverges on the initiator's side. In a passkey round that is not the last,
  \<^verbatim>\<open>ble_sm_sc_random_advance\<close> sets the Confirm state, asks the random source for the next
  nonce and hands on its return code. The responder's \<^verbatim>\<open>ble_sm_sc_random_go\<close> checks that
  code and aborts. The initiator's \<^verbatim>\<open>ble_sm_sc_random_rx\<close> drops it: when the random
  source fails, after the peer's confirm value has been verified and the keys derived, the
  step still ends in the Confirm state with the counter unchanged, reports no error and
  asks for the next step, and the own nonce of the new round is whatever the failed call
  left in the buffer.
\<close>

theorem C6_initiator_ignores_rng_failure:
  "BLE_SM_PROC_F_INITIATOR \<in> flags p \<and> BLE_SM_PROC_F_IO_INJECTED \<in> flags p \<and>
   pair_alg p = BLE_SM_PAIR_ALG_PASSKEY \<and> unat (passkey_bits_exchanged p) < 20 \<and>
   ble_sm_alg_f4 e (pk_x (pub_key_peer p)) (ble_sm_sc_pub_key g) (ble_sm_their_pair_rand p)
     (ri p) = (BLE_HS_OK, cv) \<and>
   take 16 (confirm_peer p) = take 16 cv \<and>
   ble_sm_addrs e p = (BLE_HS_OK, iat, ia, rat, ra) \<and>
   ble_sm_alg_f5 e (dhkey p) (randm p) (rands p) iat ia rat ra = (BLE_HS_OK, mk, lt) \<and>
   ble_sm_gen_pair_rand e w = (rc, v, w') \<and> rc \<noteq> BLE_HS_OK \<longrightarrow>
     fst (ble_sm_sc_random_advance e w p) = rc \<and>
     fst (ble_sm_sc_random_rx e g w p res) = w' \<and>
     state (fst (snd (ble_sm_sc_random_rx e g w p res))) = BLE_SM_PROC_STATE_CONFIRM \<and>
     passkey_bits_exchanged (fst (snd (ble_sm_sc_random_rx e g w p res))) =
       passkey_bits_exchanged p \<and>
     ble_sm_our_pair_rand (fst (snd (ble_sm_sc_random_rx e g w p res))) = v \<and>
     snd (snd (ble_sm_sc_random_rx e g w p res)) = res\<lparr>execute := True\<rparr> \<and>
     (BLE_SM_PROC_F_INITIATOR \<notin> flags q \<and> pair_alg q = BLE_SM_PAIR_ALG_PASSKEY \<and>
      unat (passkey_bits_exchanged q) < 20 \<and>
      ble_sm_pair_random_tx e (conn_handle q) (take 16 (ble_sm_our_pair_rand q)) w0
        = (BLE_HS_OK, w) \<longrightarrow>
        snd (snd (ble_sm_sc_random_go e g w0 q res)) = res_fail rc res)"
proof (rule impI)
  assume h: "BLE_SM_PROC_F_INITIATOR \<in> flags p \<and> BLE_SM_PROC_F_IO_INJECTED \<in> flags p \<and>
   pair_alg p = BLE_SM_PAIR_ALG_PASSKEY \<and> unat (passkey_bits_exchanged p) < 20 \<and>
   ble_sm_alg_f4 e (pk_x (pub_key_peer p)) (ble_sm_sc_pub_key g) (ble_sm_their_pair_rand p)
     (ri p) = (BLE_HS_OK, cv) \<and>
   take 16 (confirm_peer p) = take 16 cv \<and>
   ble_sm_addrs e p = (BLE_HS_OK, iat, ia, rat, ra) \<and>
   ble_sm_alg_f5 e (dhkey p) (randm p) (rands p) iat ia rat ra = (BLE_HS_OK, mk, lt) \<and>
   ble_sm_gen_pair_rand e w = (rc, v, w') \<and> rc \<noteq> BLE_HS_OK"
  let ?p3 = "p\<lparr>mackey := mk, ltk := lt, our_keys := with_ltk lt (our_keys p),
          peer_keys := with_ltk lt (peer_keys p), state := BLE_SM_PROC_STATE_CONFIRM,
          randm := v\<rparr>"
  from h have rx: "ble_sm_sc_random_rx e g w p res =
      (w', snd (ble_sm_sc_passkey_action ?p3), res\<lparr>execute := True\<rparr>)"
    by (simp add: random_rx_initiator_next_round)
  from h have A: "fst (ble_sm_sc_random_advance e w p) = rc"
    by (simp add: random_advance_loop)
  from h have "ble_sm_our_pair_rand ?p3 = v"
    by (simp add: ble_sm_our_pair_rand_def)
  then have B: "ble_sm_our_pair_rand (fst (snd (ble_sm_sc_random_rx e g w p res))) = v"
    by (simp add: rx passkey_action_our_pair_rand)
  have C: "BLE_SM_PROC_F_INITIATOR \<notin> flags q \<and> pair_alg q = BLE_SM_PAIR_ALG_PASSKEY \<and>
      unat (passkey_bits_exchanged q) < 20 \<and>
      ble_sm_pair_random_tx e (conn_handle q) (take 16 (ble_sm_our_pair_rand q)) w0
        = (BLE_HS_OK, w) \<longrightarrow>
        snd (snd (ble_sm_sc_random_go e g w0 q res)) = res_fail rc res"
    using h by (simp add: random_go_responder_rng_failure)
  have D: "fst (ble_sm_sc_random_rx e g w p res) = w'"
    "state (fst (snd (ble_sm_sc_random_rx e g w p res))) = BLE_SM_PROC_STATE_CONFIRM"
    "passkey_bits_exchanged (fst (snd (ble_sm_sc_random_rx e g w p res))) =
       passkey_bits_exchanged p"
    "snd (snd (ble_sm_sc_random_rx e g w p res)) = res\<lparr>execute := True\<rparr>"
    by (simp_all add: rx passkey_action_frame)
  show "fst (ble_sm_sc_random_advance e w p) = rc \<and>
     fst (ble_sm_sc_random_rx e g w p res) = w' \<and>
     state (fst (snd (ble_sm_sc_random_rx e g w p res))) = BLE_SM_PROC_STATE_CONFIRM \<and>
     passkey_bits_exchanged (fst (snd (ble_sm_sc_random_rx e g w p res))) =
       passkey_bits_exchanged p \<and>
     ble_sm_our_pair_rand (fst (snd (ble_sm_sc_random_rx e g w p res))) = v \<and>
     snd (snd (ble_sm_sc_random_rx e g w p res)) = res\<lparr>execute := True\<rparr> \<and>
     (BLE_SM_PROC_F_INITIATOR \<notin> flags q \<and> pair_alg q = BLE_SM_PAIR_ALG_PASSKEY \<and>
      unat (passkey_bits_exchanged q) < 20 \<and>
      ble_sm_pair_random_tx e (conn_handle q) (take 16 (ble_sm_our_pair_rand q)) w0
        = (BLE_HS_OK, w) \<longrightarrow>
        snd (snd (ble_sm_sc_random_go e g w0 q res)) = res_fail rc res)"
    by (rule conjI [OF A conjI [OF D(1) conjI [OF D(2) conjI [OF D(3) conjI [OF B
      conjI [OF D(4) C]]]]]])
qed


lemma failing_rand_sel [simp]:
  "ble_sm_gen_pair_rand failing_rand w = (BLE_HS_EOTHER 1, replicate 16 3, w)"
  "ble_sm_alg_f4 failing_rand = ble_sm_alg_f4 ref_env"
  "ble_sm_alg_f5 failing_rand = ble_sm_alg_f5 ref_env"
  "ble_sm_addrs failing_rand = ble_sm_addrs ref_env"
  "ble_sm_pair_random_tx failing_rand = ble_sm_pair_random_tx ref_env"
  by (simp_all add: failing_rand_def)


text \<open>The failing input: an initiator after the first passkey round (one bit exchanged,
  passkey injected, the peer's confirm value matching) receives the peer's nonce while
  the random source fails. The advance returns the error, the step reports none, goes
  back to the Confirm state, asks for the next step and keeps the nonce of the first
  round (sixteen bytes 3). A responder in the same round reports the error.\<close>

theorem C6_initiator_ignores_rng_failure_witness:
  "fst (ble_sm_sc_random_advance failing_rand 0
     ((ref_proc {BLE_SM_PROC_F_INITIATOR, BLE_SM_PROC_F_IO_INJECTED} BLE_SM_PAIR_ALG_PASSKEY
        BLE_SM_PROC_STATE_RANDOM IO_CAP_KEYBOARD_ONLY IO_CAP_DISP_ONLY 4)
      \<lparr>confirm_peer := 0x81 # replicate 15 4, passkey_bits_exchanged := 1, ri := 0x81\<rparr>))
     = BLE_HS_EOTHER 1 \<and>
   state (fst (snd (ble_sm_sc_random_rx failing_rand ref_keys 0
     ((ref_proc {BLE_SM_PROC_F_INITIATOR, BLE_SM_PROC_F_IO_INJECTED} BLE_SM_PAIR_ALG_PASSKEY
        BLE_SM_PROC_STATE_RANDOM IO_CAP_KEYBOARD_ONLY IO_CAP_DISP_ONLY 4)
      \<lparr>confirm_peer := 0x81 # replicate 15 4, passkey_bits_exchanged := 1, ri := 0x81\<rparr>)
     res0))) = BLE_SM_PROC_STATE_CONFIRM \<and>
   ble_sm_our_pair_rand (fst (snd (ble_sm_sc_random_rx failing_rand ref_keys 0
     ((ref_proc {BLE_SM_PROC_F_INITIATOR, BLE_SM_PROC_F_IO_INJECTED} BLE_SM_PAIR_ALG_PASSKEY
        BLE_SM_PROC_STATE_RANDOM IO_CAP_KEYBOARD_ONLY IO_CAP_DISP_ONLY 4)
      \<lparr>confirm_peer := 0x81 # replicate 15 4, passkey_bits_exchanged := 1, ri := 0x81\<rparr>)
     res0))) = replicate 16 3 \<and>
   snd (snd (ble_sm_sc_random_rx failing_rand ref_keys 0
     ((ref_proc {BLE_SM_PROC_F_INITIATOR, BLE_SM_PROC_F_IO_INJECTED} BLE_SM_PAIR_ALG_PASSKEY
        BLE_SM_PROC_STATE_RANDOM IO_CAP_KEYBOARD_ONLY IO_CAP_DISP_ONLY 4)
      \<lparr>confirm_peer := 0x81 # replicate 15 4, passkey_bits_exchanged := 1, ri := 0x81\<rparr>)
     res0)) = res0\<lparr>execute := True\<rparr> \<and>
   snd (snd (ble_sm_sc_random_go failing_rand ref_keys 0
     ((ref_proc {} BLE_SM_PAIR_ALG_PASSKEY BLE_SM_PROC_STATE_RANDOM
        IO_CAP_KEYBOARD_ONLY IO_CAP_DISP_ONLY 4)\<lparr>passkey_bits_exchanged := 1\<rparr>)
     res0)) = res0\<lparr>app_status := BLE_HS_EOTHER 1, enc_cb := True,
                     sm_err := BLE_SM_ERR_UNSPECIFIED\<rparr>"
proof -
  let ?pi = "(ref_proc {BLE_SM_PROC_F_INITIATOR, BLE_SM_PROC_F_IO_INJECTED}
        BLE_SM_PAIR_ALG_PASSKEY BLE_SM_PROC_STATE_RANDOM IO_CAP_KEYBOARD_ONLY IO_CAP_DISP_ONLY 4)
      \<lparr>confirm_peer := 0x81 # replicate 15 4, passkey_bits_exchanged := 1, ri := 0x81\<rparr>"
  let ?pr = "(ref_proc {} BLE_SM_PAIR_ALG_PASSKEY BLE_SM_PROC_STATE_RANDOM
        IO_CAP_KEYBOARD_ONLY IO_CAP_DISP_ONLY 4)\<lparr>passkey_bits_exchanged := 1\<rparr>"
  have f4: "ble_sm_alg_f4 failing_rand (pk_x (pub_key_peer ?pi)) (ble_sm_sc_pub_key ref_keys)
      (ble_sm_their_pair_rand ?pi) (ri ?pi) = (BLE_HS_OK, 0x81 # replicate 15 4)"
    by (simp add: ble_sm_their_pair_rand_def replicate_num)
  have f5: "ble_sm_alg_f5 failing_rand (dhkey ?pi) (randm ?pi) (rands ?pi) 0 [1, 1, 1, 1, 1, 1]
      0 [2, 2, 2, 2, 2, 2] = (BLE_HS_OK, replicate 16 3, replicate 16 4)"
    by simp
  have hyp: "BLE_SM_PROC_F_INITIATOR \<in> flags ?pi \<and> BLE_SM_PROC_F_IO_INJECTED \<in> flags ?pi \<and>
     pair_alg ?pi = BLE_SM_PAIR_ALG_PASSKEY \<and> unat (passkey_bits_exchanged ?pi) < 20 \<and>
     ble_sm_alg_f4 failing_rand (pk_x (pub_key_peer ?pi)) (ble_sm_sc_pub_key ref_keys)
       (ble_sm_their_pair_rand ?pi) (ri ?pi) = (BLE_HS_OK, 0x81 # replicate 15 4) \<and>
     take 16 (confirm_peer ?pi) = take 16 (0x81 # replicate 15 4) \<and>
     ble_sm_addrs failing_rand ?pi = (BLE_HS_OK, 0, [1, 1, 1, 1, 1, 1], 0, [2, 2, 2, 2, 2, 2]) \<and>
     ble_sm_alg_f5 failing_rand (dhkey ?pi) (randm ?pi) (rands ?pi) 0 [1, 1, 1, 1, 1, 1]
       0 [2, 2, 2, 2, 2, 2] = (BLE_HS_OK, replicate 16 3, replicate 16 4) \<and>
     ble_sm_gen_pair_rand failing_rand 0 = (BLE_HS_EOTHER 1, replicate 16 3, 0) \<and>
     BLE_HS_EOTHER 1 \<noteq> BLE_HS_OK"
    using f4 f5 by simp
  have hyq: "BLE_SM_PROC_F_INITIATOR \<notin> flags ?pr \<and> pair_alg ?pr = BLE_SM_PAIR_ALG_PASSKEY \<and>
      unat (passkey_bits_exchanged ?pr) < 20 \<and>
      ble_sm_pair_random_tx failing_rand (conn_handle ?pr) (take 16 (ble_sm_our_pair_rand ?pr)) 0
        = (BLE_HS_OK, 0)"
    by simp
  note t = C6_initiator_ignores_rng_failure [where p = ?pi and e = failing_rand and g = ref_keys
      and w = 0 and res = res0 and q = ?pr and ?w0.0 = 0, THEN mp, OF hyp]
  have a: "fst (ble_sm_sc_random_advance failing_rand 0 ?pi) = BLE_HS_EOTHER 1"
    by (rule t [THEN conjunct1])
  have b: "state (fst (snd (ble_sm_sc_random_rx failing_rand ref_keys 0 ?pi res0))) =
      BLE_SM_PROC_STATE_CONFIRM"
    by (rule t [THEN conjunct2, THEN conjunct2, THEN conjunct1])
  have c: "ble_sm_our_pair_rand (fst (snd (ble_sm_sc_random_rx failing_rand ref_keys 0 ?pi res0)))
      = replicate 16 3"
    by (rule t [THEN conjunct2, THEN conjunct2, THEN conjunct2, THEN conjunct2, THEN conjunct1])
  have d: "snd (snd (ble_sm_sc_random_rx failing_rand ref_keys 0 ?pi res0)) =
      res0\<lparr>execute := True\<rparr>"
    by (rule t [THEN conjunct2, THEN conjunct2, THEN conjunct2, THEN conjunct2, THEN conjunct2,
      THEN conjunct1])
  have e: "snd (snd (ble_sm_sc_random_go failing_rand ref_keys 0 ?pr res0)) =
      res0\<lparr>app_status := BLE_HS_EOTHER 1, enc_cb := True, sm_err := BLE_SM_ERR_UNSPECIFIED\<rparr>"
    using t [THEN conjunct2, THEN conjunct2, THEN conjunct2, THEN conjunct2, THEN conjunct2,
      THEN conjunct2, THEN mp, OF hyq]
    by (simp add: res_fail_def)
  show ?thesis
    by (rule conjI [OF a conjI [OF b conjI [OF c conjI [OF d e]]]])
qed

section \<open>Who sends a confirm value\<close>











text \<open>Only the Confirm step uses the confirm transmitter.\<close>

lemma ensure_keys_tx_free:
  "ble_sm_sc_ensure_keys_generated (e\<lparr>ble_sm_pair_confirm_tx := t\<rparr>) g w =
   ble_sm_sc_ensure_keys_generated e g w"
  by (simp add: ble_sm_sc_ensure_keys_generated_def)









lemma public_key_rx_tx_free:
  "ble_sm_sc_public_key_rx (e\<lparr>ble_sm_pair_confirm_tx := t\<rparr>) g w procs conn om res =
   ble_sm_sc_public_key_rx e g w procs conn om res"
  by (simp add: ble_sm_sc_public_key_rx_def ensure_keys_tx_free
      cong: prod.case_cong if_cong option.case_cong)














lemma counting_confirm_tx_sel [simp]:
  "ble_sm_pair_confirm_tx counting_confirm_tx c v w = (BLE_HS_OK, w + 100)"
  "ble_sm_gen_pub_priv counting_confirm_tx = ble_sm_gen_pub_priv ref_env"
  "ble_hci_util_rand counting_confirm_tx = ble_hci_util_rand ref_env"
  "ble_sm_gen_pair_rand counting_confirm_tx = ble_sm_gen_pair_rand ref_env"
  "ble_sm_alg_f4 counting_confirm_tx = ble_sm_alg_f4 ref_env"
  "ble_sm_alg_gen_dhkey counting_confirm_tx = ble_sm_alg_gen_dhkey ref_env"
  "ble_sm_public_key_tx counting_confirm_tx = ble_sm_public_key_tx ref_env"
  "ble_hs_misc_pullup_base counting_confirm_tx = ble_hs_misc_pullup_base ref_env"
  "ble_sm_pkact_state counting_confirm_tx = ble_sm_pkact_state ref_env"
  "ble_sm_proc_can_advance counting_confirm_tx = ble_sm_proc_can_advance ref_env"
  by (simp_all add: counting_confirm_tx_def)


end
